theory Spec2Isabelle
  imports Complex_Main "HOL-Library.Word"
begin

section \<open>Python values\<close>

text \<open>
  The service of \<^verbatim>\<open>backend/app/services/image_analysis_service.py\<close> works on
  dynamically typed values: what \<^verbatim>\<open>json.loads\<close> returns, and the dictionaries the
  service builds itself. A float is modelled by the number it denotes, together with the
  three special values that \<^verbatim>\<open>json.loads\<close> accepts; the service only compares a float
  with 40 and tests it for truth, and both are exact. A dictionary is an association list
  in insertion order, read with \<open>map_of\<close>. Strings are lists of characters; the case
  mappings \<^verbatim>\<open>str.upper\<close> and \<^verbatim>\<open>str.lower\<close> belong to the runtime (see below).
\<close>

datatype pyfloat = Finite real | PosInf | NegInf | NaN

datatype pyval =
    PNone
  | PBool bool
  | PInt int
  | PFloat pyfloat
  | PStr string
  | PList "pyval list"
  | PDict "(string \<times> pyval) list"

type_synonym pydict = "(string \<times> pyval) list"

type_synonym bytes = "8 word list"

text \<open>Exceptions deriving from Python's \<^verbatim>\<open>Exception\<close>, the class both handlers catch.\<close>

datatype error =
    ValueError
  | JSONDecodeError
  | TypeError
  | AttributeError
  | KeyError
  | OtherException string

text \<open>\<^verbatim>\<open>d.get(key, default)\<close>\<close>

definition dict_get :: "pydict \<Rightarrow> string \<Rightarrow> pyval \<Rightarrow> pyval" where
  "dict_get d k dflt = (case map_of d k of None \<Rightarrow> dflt | Some v \<Rightarrow> v)"

text \<open>\<^verbatim>\<open>v[key]\<close>: a \<^verbatim>\<open>KeyError\<close> on a missing key, a \<^verbatim>\<open>TypeError\<close> on a value
  that is not a dictionary (lists and strings want integer indices).\<close>

fun getitem :: "pyval \<Rightarrow> string \<Rightarrow> error + pyval" where
  "getitem (PDict d) k = (case map_of d k of None \<Rightarrow> Inl KeyError | Some v \<Rightarrow> Inr v)"
| "getitem _ k = Inl TypeError"

text \<open>Truth value testing, as \<^verbatim>\<open>not v\<close> uses it.\<close>

fun truthy :: "pyval \<Rightarrow> bool" where
  "truthy PNone = False"
| "truthy (PBool b) = b"
| "truthy (PInt n) = (n \<noteq> 0)"
| "truthy (PFloat (Finite x)) = (x \<noteq> 0)"
| "truthy (PFloat _) = True"
| "truthy (PStr s) = (s \<noteq> [])"
| "truthy (PList xs) = (xs \<noteq> [])"
| "truthy (PDict d) = (d \<noteq> [])"

text \<open>\<^verbatim>\<open>v < n\<close> for an integer literal \<open>n\<close>: numbers compare by value (\<^verbatim>\<open>bool\<close> is a
  subclass of \<^verbatim>\<open>int\<close>, NaN compares false), every other type raises \<^verbatim>\<open>TypeError\<close>.\<close>

fun py_lt_int :: "pyval \<Rightarrow> int \<Rightarrow> error + bool" where
  "py_lt_int (PBool b) n = Inr ((if b then 1 else 0) < n)"
| "py_lt_int (PInt i) n = Inr (i < n)"
| "py_lt_int (PFloat (Finite x)) n = Inr (x < real_of_int n)"
| "py_lt_int (PFloat NegInf) n = Inr True"
| "py_lt_int (PFloat PosInf) n = Inr False"
| "py_lt_int (PFloat NaN) n = Inr False"
| "py_lt_int _ n = Inl TypeError"

text \<open>\<^verbatim>\<open>len(v)\<close>; a dictionary counts its keys, each once.\<close>

fun py_len :: "pyval \<Rightarrow> error + nat" where
  "py_len (PStr s) = Inr (length s)"
| "py_len (PList xs) = Inr (length xs)"
| "py_len (PDict d) = Inr (length (remdups (map fst d)))"
| "py_len _ = Inl TypeError"

text \<open>\<^verbatim>\<open>v += s\<close> for a string \<open>s\<close>: concatenation on a string; a list is extended by the
  characters of \<open>s\<close>, one string each; anything else raises \<^verbatim>\<open>TypeError\<close>.\<close>

fun py_iadd_str :: "pyval \<Rightarrow> string \<Rightarrow> error + pyval" where
  "py_iadd_str (PStr a) s = Inr (PStr (a @ s))"
| "py_iadd_str (PList xs) s = Inr (PList (xs @ map (\<lambda>c. PStr [c]) s))"
| "py_iadd_str _ s = Inl TypeError"

subsection \<open>Strings\<close>

text \<open>\<^verbatim>\<open>s.replace("_", " ")\<close>\<close>

definition replace_underscores :: "string \<Rightarrow> string" where
  "replace_underscores s = map (\<lambda>c. if c = CHR ''_'' then CHR '' '' else c) s"

text \<open>\<^verbatim>\<open>s.startswith(p)\<close> and the operator \<^verbatim>\<open>sub in s\<close> on strings.\<close>

fun starts_with :: "string \<Rightarrow> string \<Rightarrow> bool" where
  "starts_with [] s = True"
| "starts_with (p # ps) [] = False"
| "starts_with (p # ps) (c # cs) = (p = c \<and> starts_with ps cs)"

fun contains :: "string \<Rightarrow> string \<Rightarrow> bool" where
  "contains sub [] = (sub = [])"
| "contains sub (c # cs) = (starts_with sub (c # cs) \<or> contains sub cs)"

subsection \<open>The regular expression\<close>

text \<open>
  \<^verbatim>\<open>re.search(r'\{.*\}', content, re.DOTALL)\<close>. The search tries the start positions
  from the left. At a start position the pattern wants an opening brace; then \<^verbatim>\<open>.*\<close>
  (with \<^verbatim>\<open>DOTALL\<close>: any character) takes as many characters as it can and gives them
  back one by one until a closing brace follows. \<open>dotstar_close s\<close> is the text matched
  by \<^verbatim>\<open>.*\}\<close> at the start of \<open>s\<close>; \<open>re_search\<close> returns \<^verbatim>\<open>group(0)\<close>.
\<close>

fun dotstar_close :: "string \<Rightarrow> string option" where
  "dotstar_close [] = None"
| "dotstar_close (c # cs) =
     (case dotstar_close cs of
        Some m \<Rightarrow> Some (c # m)
      | None \<Rightarrow> if c = CHR ''}'' then Some [c] else None)"

fun re_search :: "string \<Rightarrow> string option" where
  "re_search [] = None"
| "re_search (c # cs) =
     (if c = CHR ''{'' then
        (case dotstar_close cs of Some m \<Rightarrow> Some (c # m) | None \<Rightarrow> re_search cs)
      else re_search cs)"

section \<open>The knowledge base\<close>

record knowledge_record =
  scientific_name :: string
  local_name :: string
  crops_affected :: "string list"
  description :: string
  control_methods :: "string list"

text \<open>A table is a dictionary from identifier to record; iteration follows insertion order.\<close>

type_synonym table = "(string \<times> knowledge_record) list"

definition build_pest_database :: table where
  "build_pest_database =
   [(''armyworm'',
     \<lparr>scientific_name = ''Spodoptera litura / frugiperda'',
      local_name = ''Harabas / Uod'',
      crops_affected = [''rice'', ''corn'', ''onion''],
      description = ''Larvae feed on leaves leaving only veins. Major pest in Nueva Ecija and Pangasinan.'',
      control_methods = [''Biological control (Trichogramma)'', ''Spray Bacillus thuringiensis (Bt)'',
                         ''Use pheromone traps'']\<rparr>),
    (''rice_black_bug'',
     \<lparr>scientific_name = ''Scotinophara coarctata'',
      local_name = ''Itim na Atangya'',
      crops_affected = [''rice''],
      description = ''Sucks sap from the base of the plant causing 'bugburn'. Common in Bicol and Visayas.'',
      control_methods = [''Light trapping during full moon'', ''Herding ducks in the field'',
                         ''Submerge eggs by raising water level'']\<rparr>),
    (''brown_planthopper'',
     \<lparr>scientific_name = ''Nilaparvata lugens'',
      local_name = ''Kayumangging Atangya'',
      crops_affected = [''rice''],
      description = ''Causes 'hopperburn' (browning and drying of crops). Transmits Ragged Stunt Virus.'',
      control_methods = [''Use resistant varieties (NSIC Rc)'', ''Avoid excessive nitrogen fertilizer'',
                         ''Synchronous planting'']\<rparr>),
    (''corn_borer'',
     \<lparr>scientific_name = ''Ostrinia furnacalis'',
      local_name = ''Uod ng Mais'',
      crops_affected = [''corn''],
      description = ''Larvae bore into stalks and ears. The most destructive corn pest in PH.'',
      control_methods = [''Detasseling'', ''Trichogramma release'', ''Planting Bt Corn (if approved)'']\<rparr>),
    (''cocolisap'',
     \<lparr>scientific_name = ''Aspidiotus rigidus'',
      local_name = ''Cocolisap'',
      crops_affected = [''coconut'', ''lanzones''],
      description = ''Scale insects covering leaves, blocking photosynthesis. Historic outbreak in CALABARZON.'',
      control_methods = [''Pruning and burning affected parts'', ''Systemic trunk injection (FPA approved)'',
                         ''Release of biocontrol agents'']\<rparr>),
    (''mango_cecid_fly'',
     \<lparr>scientific_name = ''Procontarinia spp.'',
      local_name = ''Kurikong'',
      crops_affected = [''mango''],
      description = ''Causes circular, brown, scab-like lesions on fruit skin.'',
      control_methods = [''Pruning overcrowded branches'', ''Bagging fruits early'', ''Proper orchard sanitation'']\<rparr>),
    (''stem_borer'',
     \<lparr>scientific_name = ''Scirpophaga incertulas'',
      local_name = ''Aksip / Stem Borer'',
      crops_affected = [''rice''],
      description = ''Larvae bore into stem causing 'deadheart' (young stage) or 'whitehead' (reproductive stage).'',
      control_methods = [''Light traps'', ''Pheromone traps'', ''Conservation of natural enemies'']\<rparr>)]"

definition build_disease_database :: table where
  "build_disease_database =
   [(''rice_blast'',
     \<lparr>scientific_name = ''Magnaporthe oryzae'',
      local_name = ''Leeg-leeg (Neck Blast)'',
      crops_affected = [''rice''],
      description = ''Diamond-shaped lesions on leaves or rotting of the panicle neck.'',
      control_methods = [''Avoid excessive nitrogen'', ''Keep field flooded'',
                         ''Use fungicides (Tricyclazole) as last resort'']\<rparr>),
    (''tungro'',
     \<lparr>scientific_name = ''Rice Tungro Bacilliform Virus'',
      local_name = ''Tungro'',
      crops_affected = [''rice''],
      description = ''Yellow-orange discoloration of leaves, stunted growth. Vectored by Green Leafhopper.'',
      control_methods = [''Plant resistant varieties (Matatag lines)'', ''Control leafhopper vectors'',
                         ''Roguing (removal) of infected plants'']\<rparr>),
    (''bacterial_leaf_blight'',
     \<lparr>scientific_name = ''Xanthomonas oryzae'',
      local_name = ''Kuyog'',
      crops_affected = [''rice''],
      description = ''Yellowing and drying of leaf tips and margins. Common in wet season.'',
      control_methods = [''Balanced fertilization'', ''Proper drainage'', ''Clean field sanitation'']\<rparr>),
    (''panama_disease'',
     \<lparr>scientific_name = ''Fusarium oxysporum TR4'',
      local_name = ''Fusarium Wilt'',
      crops_affected = [''banana''],
      description = ''Yellowing of older leaves, vascular discoloration. Major threat in Mindanao plantations.'',
      control_methods = [''Quarantine infected areas'', ''Disinfect tools/footwear'',
                         ''Plant GCTCV-218 (resistant variety)'']\<rparr>)]"

text \<open>A record as the Python dictionary it is in the source.\<close>

definition record_dict :: "knowledge_record \<Rightarrow> pyval" where
  "record_dict info =
     PDict [(''scientific_name'', PStr (scientific_name info)),
            (''local_name'', PStr (local_name info)),
            (''crops_affected'', PList (map PStr (crops_affected info))),
            (''description'', PStr (description info)),
            (''control_methods'', PList (map PStr (control_methods info)))]"

section \<open>The service\<close>

text \<open>
  The object built by \<^verbatim>\<open>__init__\<close>: the two settings read from the environment and
  the two tables. (The request timeout is stored and never read.)
\<close>

record service =
  ollama_base_url :: string
  ollama_vision_model :: string
  pest_database :: table
  disease_database :: table

definition getenv :: "(string \<Rightarrow> string option) \<Rightarrow> string \<Rightarrow> string \<Rightarrow> string" where
  "getenv env name dflt = (case env name of None \<Rightarrow> dflt | Some v \<Rightarrow> v)"

definition init_service :: "(string \<Rightarrow> string option) \<Rightarrow> service" where
  "init_service env =
     \<lparr>ollama_base_url = getenv env ''OLLAMA_BASE_URL'' ''http://localhost:11434'',
      ollama_vision_model = getenv env ''OLLAMA_VISION_MODEL'' ''llava'',
      pest_database = build_pest_database,
      disease_database = build_disease_database\<rparr>"

text \<open>
  Four functions of the Python runtime are parameters of the model: \<^verbatim>\<open>json.loads\<close>
  (\<open>None\<close> when it raises), \<^verbatim>\<open>str\<close> on a value that is not a string, and the
  methods \<^verbatim>\<open>upper\<close> and \<^verbatim>\<open>lower\<close> of a string, which follow the Unicode case
  mappings and may change the length of a string. Every theorem below holds for all of
  them.
\<close>

record runtime =
  json_loads :: "string \<Rightarrow> pyval option"
  py_repr :: "pyval \<Rightarrow> string"
  str_upper :: "string \<Rightarrow> string"
  str_lower :: "string \<Rightarrow> string"

text \<open>\<^verbatim>\<open>str(v)\<close>, also what an f-string does with \<^verbatim>\<open>{v}\<close>.\<close>

fun py_str :: "runtime \<Rightarrow> pyval \<Rightarrow> string" where
  "py_str rt (PStr s) = s"
| "py_str rt v = py_repr rt v"

subsection \<open>The fixed results\<close>

definition get_fallback_analysis :: pydict where
  "get_fallback_analysis =
     [(''plant_type'', PStr ''Analysis Failed''),
      (''pest_detected'', PBool False),
      (''disease_detected'', PBool False),
      (''health_status'', PStr ''System Error''),
      (''natural_summary'',
         PStr ''I'm sorry, I couldn't analyze that image clearly. Please try again with a better photo.''),
      (''recommendations'', PList []),
      (''sources'', PList [])]"

text \<open>The dictionary returned at the rejection gate.\<close>

definition non_agricultural_result :: "pydict \<Rightarrow> pydict" where
  "non_agricultural_result data =
     [(''plant_type'', PStr ''Non-Agricultural Object''),
      (''pest_detected'', PBool False),
      (''disease_detected'', PBool False),
      (''health_status'', PStr ''Not Agricultural''),
      (''severity'', PStr ''None''),
      (''recommendations'', PList [PStr ''Please upload a clear photo of a crop, plant, or pest.'']),
      (''sources'', PList []),
      (''natural_summary'',
         dict_get data ''natural_response''
           (PStr ''I'm sorry, I couldn't recognize a plant or crop in this image.''))]"

subsection \<open>Matching against a table\<close>

text \<open>The test of the two loops: the identifier with spaces for underscores, or the local
  name, both uppercased, occurs in the uppercased issue.\<close>

definition record_matches :: "runtime \<Rightarrow> string \<Rightarrow> string \<times> knowledge_record \<Rightarrow> bool" where
  "record_matches rt content_upper entry =
     (contains (str_upper rt (replace_underscores (fst entry))) content_upper
      \<or> contains (str_upper rt (local_name (snd entry))) content_upper)"

text \<open>The sentence appended on a match, when the summary has fewer than 50 items.\<close>

definition append_resembles :: "pyval \<Rightarrow> knowledge_record \<Rightarrow> error + pyval" where
  "append_resembles natural_summary info =
     (case py_len natural_summary of
        Inl e \<Rightarrow> Inl e
      | Inr n \<Rightarrow>
          if n < 50 then py_iadd_str natural_summary ('' This resembles '' @ local_name info @ ''.'')
          else Inr natural_summary)"

text \<open>
  One \<^verbatim>\<open>for key, info in table.items()\<close> loop. The state is the triple of the three
  variables the loop assigns: \<^verbatim>\<open>recommendations\<close>, \<^verbatim>\<open>pest_info\<close> or
  \<^verbatim>\<open>disease_info\<close>, and \<^verbatim>\<open>natural_summary\<close>. The first matching entry assigns
  them and leaves the loop.
\<close>

fun match_loop ::
  "runtime \<Rightarrow> string \<Rightarrow> table \<Rightarrow> pyval \<times> pyval \<times> pyval \<Rightarrow> error + pyval \<times> pyval \<times> pyval" where
  "match_loop rt content_upper [] st = Inr st"
| "match_loop rt content_upper ((key, info) # rest) (recommendations, found, natural_summary) =
     (if record_matches rt content_upper (key, info) then
        (case append_resembles natural_summary info of
           Inl e \<Rightarrow> Inl e
         | Inr natural_summary' \<Rightarrow>
             Inr (PList (map PStr (control_methods info)), record_dict info, natural_summary'))
      else match_loop rt content_upper rest (recommendations, found, natural_summary))"

subsection \<open>The parser\<close>

text \<open>The branch \<^verbatim>\<open>if not pest_detected and not disease_detected\<close>, on the pair
  (\<^verbatim>\<open>recommendations\<close>, \<^verbatim>\<open>natural_summary\<close>).\<close>

definition healthy_branch :: "runtime \<Rightarrow> pyval \<Rightarrow> string \<Rightarrow> pyval \<Rightarrow> error + pyval \<times> pyval" where
  "healthy_branch rt plant_type condition natural_summary =
     (let recommendations = PList [PStr ''Continue Good Agricultural Practices (GAP).'',
                                   PStr ''Regular monitoring.'']
      in if contains ''healthy'' (str_lower rt condition) then
           (case py_len natural_summary of
              Inl e \<Rightarrow> Inl e
            | Inr n \<Rightarrow>
                if n < 10 then
                  Inr (recommendations,
                       PStr (''The '' @ py_str rt plant_type @ '' looks healthy. Keep up the good work!''))
                else Inr (recommendations, natural_summary))
         else Inr (recommendations, natural_summary))"

text \<open>Part 2 of the parser, \<^verbatim>\<open># 2. Process Agricultural Data\<close>, down to the final
  \<^verbatim>\<open>return\<close>. A condition that is not a string has no \<^verbatim>\<open>upper\<close> method.\<close>

definition process_agricultural :: "runtime \<Rightarrow> service \<Rightarrow> pydict \<Rightarrow> error + pydict" where
  "process_agricultural rt self data =
     (let plant_type = dict_get data ''plant_name'' (PStr ''Unknown Crop'');
          detected_issue = dict_get data ''detected_issue'' (PStr '''');
          condition = dict_get data ''condition'' (PStr ''Unknown'');
          natural_summary = dict_get data ''natural_response'' (PStr '''')
      in case condition of
           PStr cond \<Rightarrow>
            (let pest_detected = contains ''PEST'' (str_upper rt cond);
                 disease_detected = contains ''DISEASE'' (str_upper rt cond);
                 recommendations = PList [PStr ''Monitor the crop closely.'',
                                          PStr ''Consult your local technician.''];
                 content_upper = str_upper rt (py_str rt detected_issue)
             in case (if pest_detected
                      then match_loop rt content_upper (pest_database self)
                             (recommendations, PNone, natural_summary)
                      else Inr (recommendations, PNone, natural_summary)) of
                  Inl e \<Rightarrow> Inl e
                | Inr (recommendations1, pest_info, natural_summary1) \<Rightarrow>
               (case (if disease_detected
                      then match_loop rt content_upper (disease_database self)
                             (recommendations1, PNone, natural_summary1)
                      else Inr (recommendations1, PNone, natural_summary1)) of
                  Inl e \<Rightarrow> Inl e
                | Inr (recommendations2, disease_info, natural_summary2) \<Rightarrow>
               (case (if \<not> pest_detected \<and> \<not> disease_detected
                      then healthy_branch rt plant_type cond natural_summary2
                      else Inr (recommendations2, natural_summary2)) of
                  Inl e \<Rightarrow> Inl e
                | Inr (recommendations3, natural_summary3) \<Rightarrow>
                    Inr [(''plant_type'', plant_type),
                         (''pest_detected'', PBool pest_detected),
                         (''disease_detected'', PBool disease_detected),
                         (''health_status'', PStr cond),
                         (''severity'',
                            PStr (if pest_detected \<or> disease_detected then ''Moderate'' else ''None'')),
                         (''pest_info'', pest_info),
                         (''disease_info'', disease_info),
                         (''recommendations'', recommendations3),
                         (''sources'', PList []),
                         (''natural_summary'', natural_summary3)])))
         | _ \<Rightarrow> Inl AttributeError)"

text \<open>The test \<^verbatim>\<open>if not is_agricultural or confidence < 40\<close>; \<^verbatim>\<open>or\<close> evaluates the
  comparison only when the first operand is false.\<close>

definition rejection_gate :: "pydict \<Rightarrow> error + bool" where
  "rejection_gate data =
     (let is_agricultural = dict_get data ''is_agricultural'' (PBool False);
          confidence = dict_get data ''confidence_score'' (PInt 100)
      in if \<not> truthy is_agricultural then Inr True else py_lt_int confidence 40)"

text \<open>What follows \<^verbatim>\<open>json.loads\<close>; a decoded value that is not a dictionary has no
  \<^verbatim>\<open>get\<close> method.\<close>

fun process_data :: "runtime \<Rightarrow> service \<Rightarrow> pyval \<Rightarrow> error + pydict" where
  "process_data rt self (PDict data) =
     (case rejection_gate data of
        Inl e \<Rightarrow> Inl e
      | Inr reject \<Rightarrow>
          if reject then Inr (non_agricultural_result data)
          else process_agricultural rt self data)"
| "process_data rt self _ = Inl AttributeError"

text \<open>The body of the \<^verbatim>\<open>try\<close> of \<^verbatim>\<open>_parse_llm_analysis\<close>. \<^verbatim>\<open>re.search\<close> raises
  \<^verbatim>\<open>TypeError\<close> on a content that is not a string.\<close>

fun parse_body :: "runtime \<Rightarrow> service \<Rightarrow> pyval \<Rightarrow> error + pydict" where
  "parse_body rt self (PStr content) =
     (case re_search content of
        Some json_str \<Rightarrow>
          (case json_loads rt json_str of
             None \<Rightarrow> Inl JSONDecodeError
           | Some data \<Rightarrow> process_data rt self data)
      | None \<Rightarrow> Inl ValueError)"
| "parse_body rt self _ = Inl TypeError"

text \<open>\<^verbatim>\<open>try: ... except Exception: return handler\<close>\<close>

definition try_except :: "error + 'a \<Rightarrow> 'a \<Rightarrow> error + 'a" where
  "try_except body handler = (case body of Inl e \<Rightarrow> Inr handler | Inr v \<Rightarrow> Inr v)"

definition parse_llm_analysis :: "runtime \<Rightarrow> service \<Rightarrow> pyval \<Rightarrow> error + pydict" where
  "parse_llm_analysis rt self content = try_except (parse_body rt self content) get_fallback_analysis"

text \<open>The f-string of \<^verbatim>\<open>analyze_image\<close>, line by line; \<open>newline\<close> ends each line.\<close>

definition newline :: string where
  "newline = [CHR 0x0A]"

definition prompt_head :: "string list" where
  \<open>prompt_head =
     ['''',
      ''            Act as an expert Philippine Agricultural System. Analyze this image.'',
      '''']\<close>

definition prompt_tail :: "string list" where
  \<open>prompt_tail =
     ['''',
      ''            STEP 1: VISUAL IDENTIFICATION (Reasoning)'',
      ''            - Look at the image content. What is the main subject?'',
      ''            - Is it a CROP (rice, corn, vegetable, fruit) or a PEST on a plant?'',
      ''            - IF the image is a person, selfie, car, document, room, animal, or blurry object: MARK "is_agricultural" AS FALSE.'',
      '''',
      ''            STEP 2: DIAGNOSIS (Only if Agricultural)'',
      ''            - Identify the specific plant.'',
      ''            - Check for specific symptoms: leaf spots, yellowing, holes, or visible insects.'',
      ''            - If no symptoms are visible, mark as "Healthy".'',
      '''',
      ''            STEP 3: GENERATE RESPONSE'',
      ''            - Create a "natural_response": A helpful, polite sentence for the farmer in English.'',
      ''              - If NOT agricultural, say: "I cannot analyze this. It looks like a [object], not a crop."'',
      ''              - If agricultural, explain what you see naturally.'',
      '''',
      ''            Output VALID JSON ONLY:'',
      ''            {'',
      ''                "is_agricultural": boolean,'',
      ''                "plant_name": "string or 'Unknown'",'',
      ''                "detected_issue": "string (e.g. 'Stem Borer', 'Rice Blast', 'None')",'',
      ''                "condition": "Healthy" | "Pest Detected" | "Disease Detected" | "N/A",'',
      ''                "confidence_score": number (0-100),'',
      ''                "natural_response": "string"'',
      ''            }'']\<close>

definition build_prompt :: "string \<Rightarrow> string" where
  "build_prompt context =
     concat (map (\<lambda>l. l @ newline) prompt_head) @ ''            Context provided: '' @ context @ newline
     @ concat (map (\<lambda>l. l @ newline) prompt_tail) @ ''            ''"
subsection \<open>The entry point\<close>

text \<open>
  \<^verbatim>\<open>ollama.chat\<close> is the external model: a parameter that takes the model name, the
  prompt and the image, and returns the response or raises. The body reads
  \<^verbatim>\<open>response['message']['content']\<close> and hands it to the parser.
\<close>

type_synonym chat = "string \<Rightarrow> string \<Rightarrow> bytes \<Rightarrow> error + pyval"

definition analyze_image_body ::
  "runtime \<Rightarrow> chat \<Rightarrow> service \<Rightarrow> bytes \<Rightarrow> string \<Rightarrow> string \<Rightarrow> error + pydict" where
  "analyze_image_body rt ollama_chat self image_data filename context =
     (case ollama_chat (ollama_vision_model self) (build_prompt context) image_data of
        Inl e \<Rightarrow> Inl e
      | Inr response \<Rightarrow>
          (case getitem response ''message'' of
             Inl e \<Rightarrow> Inl e
           | Inr message \<Rightarrow>
               (case getitem message ''content'' of
                  Inl e \<Rightarrow> Inl e
                | Inr content \<Rightarrow> parse_llm_analysis rt self content)))"

definition analyze_image ::
  "runtime \<Rightarrow> chat \<Rightarrow> service \<Rightarrow> bytes \<Rightarrow> string \<Rightarrow> string \<Rightarrow> error + pydict" where
  "analyze_image rt ollama_chat self image_data filename context =
     try_except (analyze_image_body rt ollama_chat self image_data filename context)
       get_fallback_analysis"

section \<open>Sample responses\<close>

text \<open>
  Model responses for the examples below: the scenarios of the specification, and others
  for the two matching loops and for a dictionary with no condition. \<open>scenario_loads\<close> is \<^verbatim>\<open>json.loads\<close> on
  their JSON texts and raises on every other text; \<open>scenario_repr\<close> is \<^verbatim>\<open>str\<close> on
  \<^verbatim>\<open>None\<close> and the two truth values, the only values besides strings that the samples
  could hand to it; \<open>ascii_upper\<close> and \<open>ascii_lower\<close> are \<^verbatim>\<open>str.upper\<close> and
  \<^verbatim>\<open>str.lower\<close> on ASCII text, which is all the samples and the two tables contain.
\<close>

definition upper_char :: "char \<Rightarrow> char" where
  "upper_char c =
     (let n = (of_char c :: nat) in if 97 \<le> n \<and> n \<le> 122 then char_of (n - 32) else c)"

definition lower_char :: "char \<Rightarrow> char" where
  "lower_char c =
     (let n = (of_char c :: nat) in if 65 \<le> n \<and> n \<le> 90 then char_of (n + 32) else c)"

definition ascii_upper :: "string \<Rightarrow> string" where
  "ascii_upper s = map upper_char s"

definition ascii_lower :: "string \<Rightarrow> string" where
  "ascii_lower s = map lower_char s"

definition stem_borer_json :: string where
  \<open>stem_borer_json = ''{"is_agricultural": true, "plant_name": "Rice", "detected_issue": "Stem Borer", "condition": "Pest Detected", "confidence_score": 85, "natural_response": "I see rice with stem damage."}''\<close>

definition car_json :: string where
  \<open>car_json = ''{"is_agricultural": false, "natural_response": "I cannot analyze this. It looks like a car, not a crop."}''\<close>

definition low_confidence_json :: string where
  \<open>low_confidence_json = ''{"is_agricultural": true, "confidence_score": 20, "plant_name": "Corn"}''\<close>

definition healthy_json :: string where
  \<open>healthy_json = ''{"is_agricultural": true, "plant_name": "Corn", "condition": "Healthy", "natural_response": ""}''\<close>

definition both_json :: string where
  \<open>both_json = ''{"is_agricultural": true, "plant_name": "Rice", "detected_issue": "Stem borer with tungro", "condition": "Pest and Disease Detected", "natural_response": "Damaged rice."}''\<close>

definition armyworm_json :: string where
  \<open>armyworm_json = ''{"is_agricultural": true, "plant_name": "Corn", "detected_issue": "Armyworm", "condition": "Pest and Disease Detected"}''\<close>

definition kurikong_json :: string where
  \<open>kurikong_json = ''{"is_agricultural": true, "plant_name": "Mango", "detected_issue": "Stem borer or Kurikong", "condition": "Pest Detected", "confidence_score": 90, "natural_response": "Insects on the fruit."}''\<close>

definition stem_borer_data :: pydict where
  "stem_borer_data =
     [(''is_agricultural'', PBool True), (''plant_name'', PStr ''Rice''),
      (''detected_issue'', PStr ''Stem Borer''), (''condition'', PStr ''Pest Detected''),
      (''confidence_score'', PInt 85), (''natural_response'', PStr ''I see rice with stem damage.'')]"

definition car_data :: pydict where
  "car_data =
     [(''is_agricultural'', PBool False),
      (''natural_response'', PStr ''I cannot analyze this. It looks like a car, not a crop.'')]"

definition low_confidence_data :: pydict where
  "low_confidence_data =
     [(''is_agricultural'', PBool True), (''confidence_score'', PInt 20), (''plant_name'', PStr ''Corn'')]"

definition healthy_data :: pydict where
  "healthy_data =
     [(''is_agricultural'', PBool True), (''plant_name'', PStr ''Corn''),
      (''condition'', PStr ''Healthy''), (''natural_response'', PStr '''')]"

definition both_data :: pydict where
  "both_data =
     [(''is_agricultural'', PBool True), (''plant_name'', PStr ''Rice''),
      (''detected_issue'', PStr ''Stem borer with tungro''),
      (''condition'', PStr ''Pest and Disease Detected''),
      (''natural_response'', PStr ''Damaged rice.'')]"

definition armyworm_data :: pydict where
  "armyworm_data =
     [(''is_agricultural'', PBool True), (''plant_name'', PStr ''Corn''),
      (''detected_issue'', PStr ''Armyworm''), (''condition'', PStr ''Pest and Disease Detected'')]"

definition kurikong_data :: pydict where
  "kurikong_data =
     [(''is_agricultural'', PBool True), (''plant_name'', PStr ''Mango''),
      (''detected_issue'', PStr ''Stem borer or Kurikong''), (''condition'', PStr ''Pest Detected''),
      (''confidence_score'', PInt 90), (''natural_response'', PStr ''Insects on the fruit.'')]"

text \<open>A response that says nothing but that the image is agricultural.\<close>

definition bare_json :: string where
  \<open>bare_json = ''{"is_agricultural": true, "plant_name": "Corn"}''\<close>

definition bare_data :: pydict where
  "bare_data = [(''is_agricultural'', PBool True), (''plant_name'', PStr ''Corn'')]"

definition scenario_loads :: "string \<Rightarrow> pyval option" where
  "scenario_loads =
     map_of [(stem_borer_json, PDict stem_borer_data),
             (car_json, PDict car_data),
             (low_confidence_json, PDict low_confidence_data),
             (healthy_json, PDict healthy_data),
             (both_json, PDict both_data),
             (armyworm_json, PDict armyworm_data),
             (kurikong_json, PDict kurikong_data),
             (bare_json, PDict bare_data)]"

fun scenario_repr :: "pyval \<Rightarrow> string" where
  "scenario_repr PNone = ''None''"
| "scenario_repr (PBool b) = (if b then ''True'' else ''False'')"
| "scenario_repr _ = []"

definition scenario_runtime :: runtime where
  "scenario_runtime =
     \<lparr>json_loads = scenario_loads, py_repr = scenario_repr,
      str_upper = ascii_upper, str_lower = ascii_lower\<rparr>"

text \<open>The service as built with no setting in the environment.\<close>

definition default_service :: service where
  "default_service = init_service (\<lambda>name. None)"

text \<open>The dictionaries the parser returns on the accepted samples.\<close>

definition stem_borer_result :: pydict where
  "stem_borer_result =
     [(''plant_type'', PStr ''Rice''),
      (''pest_detected'', PBool True),
      (''disease_detected'', PBool False),
      (''health_status'', PStr ''Pest Detected''),
      (''severity'', PStr ''Moderate''),
      (''pest_info'', record_dict (the (map_of build_pest_database ''stem_borer''))),
      (''disease_info'', PNone),
      (''recommendations'',
         PList [PStr ''Light traps'', PStr ''Pheromone traps'', PStr ''Conservation of natural enemies'']),
      (''sources'', PList []),
      (''natural_summary'', PStr ''I see rice with stem damage. This resembles Aksip / Stem Borer.'')]"


definition bare_result :: pydict where
  "bare_result =
     [(''plant_type'', PStr ''Corn''),
      (''pest_detected'', PBool False),
      (''disease_detected'', PBool False),
      (''health_status'', PStr ''Unknown''),
      (''severity'', PStr ''None''),
      (''pest_info'', PNone),
      (''disease_info'', PNone),
      (''recommendations'',
         PList [PStr ''Continue Good Agricultural Practices (GAP).'', PStr ''Regular monitoring.'']),
      (''sources'', PList []),
      (''natural_summary'', PStr '''')]"

definition both_result :: pydict where
  "both_result =
     [(''plant_type'', PStr ''Rice''),
      (''pest_detected'', PBool True),
      (''disease_detected'', PBool True),
      (''health_status'', PStr ''Pest and Disease Detected''),
      (''severity'', PStr ''Moderate''),
      (''pest_info'', record_dict (the (map_of build_pest_database ''stem_borer''))),
      (''disease_info'', record_dict (the (map_of build_disease_database ''tungro''))),
      (''recommendations'',
         PList [PStr ''Plant resistant varieties (Matatag lines)'', PStr ''Control leafhopper vectors'',
                PStr ''Roguing (removal) of infected plants'']),
      (''sources'', PList []),
      (''natural_summary'',
         PStr ''Damaged rice. This resembles Aksip / Stem Borer. This resembles Tungro.'')]"

definition armyworm_result :: pydict where
  "armyworm_result =
     [(''plant_type'', PStr ''Corn''),
      (''pest_detected'', PBool True),
      (''disease_detected'', PBool True),
      (''health_status'', PStr ''Pest and Disease Detected''),
      (''severity'', PStr ''Moderate''),
      (''pest_info'', record_dict (the (map_of build_pest_database ''armyworm''))),
      (''disease_info'', PNone),
      (''recommendations'',
         PList [PStr ''Biological control (Trichogramma)'', PStr ''Spray Bacillus thuringiensis (Bt)'',
                PStr ''Use pheromone traps'']),
      (''sources'', PList []),
      (''natural_summary'', PStr '' This resembles Harabas / Uod.'')]"

definition kurikong_result :: pydict where
  "kurikong_result =
     [(''plant_type'', PStr ''Mango''),
      (''pest_detected'', PBool True),
      (''disease_detected'', PBool False),
      (''health_status'', PStr ''Pest Detected''),
      (''severity'', PStr ''Moderate''),
      (''pest_info'', record_dict (the (map_of build_pest_database ''mango_cecid_fly''))),
      (''disease_info'', PNone),
      (''recommendations'',
         PList [PStr ''Pruning overcrowded branches'', PStr ''Bagging fruits early'',
                PStr ''Proper orchard sanitation'']),
      (''sources'', PList []),
      (''natural_summary'', PStr ''Insects on the fruit. This resembles Kurikong.'')]"

section \<open>Accepted parses\<close>

text \<open>
  The parse of \<open>content\<close> is accepted when the parser reaches its final
  \<^verbatim>\<open>return\<close>: a JSON text is found and decodes to the dictionary \<open>data\<close>, the
  rejection gate lets it pass, and part 2 runs to its end with the dictionary \<open>result\<close>.
\<close>

definition accepted_parse :: "runtime \<Rightarrow> service \<Rightarrow> string \<Rightarrow> pydict \<Rightarrow> pydict \<Rightarrow> bool" where
  "accepted_parse rt self content data result =
     ((case re_search content of
         None \<Rightarrow> False
       | Some json_str \<Rightarrow> json_loads rt json_str = Some (PDict data))
      \<and> rejection_gate data = Inr False
      \<and> process_agricultural rt self data = Inr result)"

section \<open>Auxiliary facts\<close>

subsection \<open>Substrings and the regular expression\<close>

lemma starts_with_iff: "starts_with p s \<longleftrightarrow> (\<exists>ss. s = p @ ss)"
  by (induction p s rule: starts_with.induct) auto

lemma contains_iff: "contains sub s \<longleftrightarrow> (\<exists>ps ss. s = ps @ sub @ ss)"
proof (induction s)
  case Nil
  show ?case by simp
next
  case (Cons c cs)
  have "(\<exists>ps ss. c # cs = ps @ sub @ ss) \<longleftrightarrow>
        (\<exists>ss. c # cs = sub @ ss) \<or> (\<exists>ps ss. cs = ps @ sub @ ss)"
  proof
    assume "\<exists>ps ss. c # cs = ps @ sub @ ss"
    then obtain ps ss where e: "c # cs = ps @ sub @ ss" by blast
    show "(\<exists>ss. c # cs = sub @ ss) \<or> (\<exists>ps ss. cs = ps @ sub @ ss)"
    proof (cases ps)
      case Nil
      with e show ?thesis by auto
    next
      case (Cons p ps')
      with e have "cs = ps' @ sub @ ss" by simp
      then show ?thesis by blast
    qed
  next
    assume "(\<exists>ss. c # cs = sub @ ss) \<or> (\<exists>ps ss. cs = ps @ sub @ ss)"
    then show "\<exists>ps ss. c # cs = ps @ sub @ ss"
    proof
      assume "\<exists>ss. c # cs = sub @ ss"
      then obtain ss where "c # cs = [] @ sub @ ss" by auto
      then show ?thesis by blast
    next
      assume "\<exists>ps ss. cs = ps @ sub @ ss"
      then obtain ps ss where "cs = ps @ sub @ ss" by blast
      then have "c # cs = (c # ps) @ sub @ ss" by simp
      then show ?thesis by blast
    qed
  qed
  with Cons show ?case by (simp only: contains.simps starts_with_iff)
qed

lemma dotstar_close_None: "dotstar_close s = None \<longleftrightarrow> CHR ''}'' \<notin> set s"
  by (induction s) (auto split: option.splits)

lemma dotstar_close_Some:
  "dotstar_close s = Some m \<longleftrightarrow>
     (\<exists>mid post. s = mid @ CHR ''}'' # post \<and> CHR ''}'' \<notin> set post \<and> m = mid @ [CHR ''}''])"
proof (induction s arbitrary: m)
  case Nil
  show ?case by simp
next
  case (Cons c cs)
  show ?case
  proof (cases "dotstar_close cs")
    case None
    then have nin: "CHR ''}'' \<notin> set cs" by (simp add: dotstar_close_None)
    show ?thesis
    proof
      assume "dotstar_close (c # cs) = Some m"
      with None have "c = CHR ''}''" "m = [c]" by (auto split: if_splits)
      with nin have "c # cs = [] @ CHR ''}'' # cs \<and> CHR ''}'' \<notin> set cs \<and> m = [] @ [CHR ''}'']" by simp
      then show "\<exists>mid post. c # cs = mid @ CHR ''}'' # post \<and> CHR ''}'' \<notin> set post \<and> m = mid @ [CHR ''}'']"
        by blast
    next
      assume "\<exists>mid post. c # cs = mid @ CHR ''}'' # post \<and> CHR ''}'' \<notin> set post \<and> m = mid @ [CHR ''}'']"
      then obtain mid post where e: "c # cs = mid @ CHR ''}'' # post" and m: "m = mid @ [CHR ''}'']" by blast
      have "mid = []"
      proof (cases mid)
        case (Cons a mid')
        with e have "cs = mid' @ CHR ''}'' # post" by simp
        with nin show ?thesis by simp
      qed simp
      with e m None show "dotstar_close (c # cs) = Some m" by simp
    qed
  next
    case (Some m')
    with Cons.IH[of m'] obtain mid post where
      cs: "cs = mid @ CHR ''}'' # post" and nin: "CHR ''}'' \<notin> set post" and m': "m' = mid @ [CHR ''}'']"
      by blast
    show ?thesis
    proof
      assume "dotstar_close (c # cs) = Some m"
      with Some have "m = c # m'" by simp
      with cs nin m' have "c # cs = (c # mid) @ CHR ''}'' # post \<and> CHR ''}'' \<notin> set post \<and> m = (c # mid) @ [CHR ''}'']"
        by simp
      then show "\<exists>mid post. c # cs = mid @ CHR ''}'' # post \<and> CHR ''}'' \<notin> set post \<and> m = mid @ [CHR ''}'']"
        by blast
    next
      assume "\<exists>mid post. c # cs = mid @ CHR ''}'' # post \<and> CHR ''}'' \<notin> set post \<and> m = mid @ [CHR ''}'']"
      then obtain mid2 post2 where e: "c # cs = mid2 @ CHR ''}'' # post2" and n2: "CHR ''}'' \<notin> set post2"
        and m: "m = mid2 @ [CHR ''}'']" by blast
      have "mid2 \<noteq> []"
      proof
        assume "mid2 = []"
        with e have "cs = post2" by simp
        with n2 cs show False by simp
      qed
      then obtain mid3 where mid2: "mid2 = c # mid3" using e by (cases mid2) auto
      with e have "cs = mid3 @ CHR ''}'' # post2" by simp
      with n2 have "dotstar_close cs = Some (mid3 @ [CHR ''}''])" using Cons.IH by blast
      with Some m mid2 show "dotstar_close (c # cs) = Some m" by simp
    qed
  qed
qed

lemma re_search_no_close: "CHR ''}'' \<notin> set s \<Longrightarrow> re_search s = None"
proof (induction s)
  case Nil
  show ?case by simp
next
  case (Cons c cs)
  then have "dotstar_close cs = None" by (simp add: dotstar_close_None)
  with Cons show ?case by simp
qed

lemma re_search_Some:
  "re_search s = Some m \<longleftrightarrow>
     (\<exists>pre mid post. s = pre @ CHR ''{'' # mid @ CHR ''}'' # post
        \<and> CHR ''{'' \<notin> set pre \<and> CHR ''}'' \<notin> set post \<and> m = CHR ''{'' # mid @ [CHR ''}''])"
  (is "?L s \<longleftrightarrow> ?R s")
proof (induction s)
  case Nil
  show ?case by simp
next
  case (Cons c cs)
  show ?case
  proof (cases "c = CHR ''{''")
    case False
    have "?R (c # cs) \<longleftrightarrow> ?R cs"
    proof
      assume "?R (c # cs)"
      then obtain pre mid post where e: "c # cs = pre @ CHR ''{'' # mid @ CHR ''}'' # post"
        and r: "CHR ''{'' \<notin> set pre" "CHR ''}'' \<notin> set post" "m = CHR ''{'' # mid @ [CHR ''}'']" by blast
      from e False obtain pre' where "pre = c # pre'" by (cases pre) auto
      with e r have "cs = pre' @ CHR ''{'' # mid @ CHR ''}'' # post \<and> CHR ''{'' \<notin> set pre'
        \<and> CHR ''}'' \<notin> set post \<and> m = CHR ''{'' # mid @ [CHR ''}'']" by simp
      then show "?R cs" by blast
    next
      assume "?R cs"
      then obtain pre mid post where e: "cs = pre @ CHR ''{'' # mid @ CHR ''}'' # post"
        and r: "CHR ''{'' \<notin> set pre" "CHR ''}'' \<notin> set post" "m = CHR ''{'' # mid @ [CHR ''}'']" by blast
      with False have "c # cs = (c # pre) @ CHR ''{'' # mid @ CHR ''}'' # post \<and> CHR ''{'' \<notin> set (c # pre)
        \<and> CHR ''}'' \<notin> set post \<and> m = CHR ''{'' # mid @ [CHR ''}'']" by auto
      then show "?R (c # cs)" by blast
    qed
    with Cons False show ?thesis by simp
  next
    case True
    have R: "?R (c # cs) \<longleftrightarrow> (\<exists>mid post. cs = mid @ CHR ''}'' # post \<and> CHR ''}'' \<notin> set post
                \<and> m = c # mid @ [CHR ''}''])"
    proof
      assume "?R (c # cs)"
      then obtain pre mid post where e: "c # cs = pre @ CHR ''{'' # mid @ CHR ''}'' # post"
        and r: "CHR ''{'' \<notin> set pre" "CHR ''}'' \<notin> set post" "m = CHR ''{'' # mid @ [CHR ''}'']" by blast
      have "pre = []" using e r(1) True by (cases pre) auto
      with e r True show "\<exists>mid post. cs = mid @ CHR ''}'' # post \<and> CHR ''}'' \<notin> set post
                \<and> m = c # mid @ [CHR ''}'']" by auto
    next
      assume "\<exists>mid post. cs = mid @ CHR ''}'' # post \<and> CHR ''}'' \<notin> set post \<and> m = c # mid @ [CHR ''}'']"
      then obtain mid post where "cs = mid @ CHR ''}'' # post" "CHR ''}'' \<notin> set post" "m = c # mid @ [CHR ''}'']"
        by blast
      with True have "c # cs = [] @ CHR ''{'' # mid @ CHR ''}'' # post \<and> CHR ''{'' \<notin> set []
        \<and> CHR ''}'' \<notin> set post \<and> m = CHR ''{'' # mid @ [CHR ''}'']" by simp
      then show "?R (c # cs)" by blast
    qed
    show ?thesis
    proof (cases "dotstar_close cs")
      case None
      then have nin: "CHR ''}'' \<notin> set cs" by (simp add: dotstar_close_None)
      then have "re_search (c # cs) = None" using True None by (simp add: re_search_no_close)
      moreover have "\<not> (\<exists>mid post. cs = mid @ CHR ''}'' # post \<and> CHR ''}'' \<notin> set post \<and> m = c # mid @ [CHR ''}''])"
        using nin by auto
      ultimately show ?thesis using R by simp
    next
      case (Some m')
      have "re_search (c # cs) = Some m \<longleftrightarrow> m = c # m'" using True Some by auto
      also have "\<dots> \<longleftrightarrow> (\<exists>m''. dotstar_close cs = Some m'' \<and> m = c # m'')" using Some by auto
      also have "\<dots> \<longleftrightarrow> (\<exists>mid post. cs = mid @ CHR ''}'' # post \<and> CHR ''}'' \<notin> set post \<and> m = c # mid @ [CHR ''}''])"
        by (auto simp: dotstar_close_Some)
      finally show ?thesis using R by simp
    qed
  qed
qed

lemma re_search_None:
  "re_search s = None \<longleftrightarrow> \<not> (\<exists>pre mid post. s = pre @ CHR ''{'' # mid @ CHR ''}'' # post)"
proof
  assume n: "re_search s = None"
  show "\<not> (\<exists>pre mid post. s = pre @ CHR ''{'' # mid @ CHR ''}'' # post)"
  proof
    assume "\<exists>pre mid post. s = pre @ CHR ''{'' # mid @ CHR ''}'' # post"
    then obtain pre mid post where s: "s = pre @ CHR ''{'' # mid @ CHR ''}'' # post" by blast
    have "\<exists>m. re_search s = Some m" unfolding s
    proof (induction pre)
      case Nil
      have "dotstar_close (mid @ CHR ''}'' # post) \<noteq> None" by (simp add: dotstar_close_None)
      then show ?case by auto
    next
      case (Cons a pre)
      then show ?case by (auto split: option.splits)
    qed
    with n show False by simp
  qed
next
  assume "\<not> (\<exists>pre mid post. s = pre @ CHR ''{'' # mid @ CHR ''}'' # post)"
  then have "\<And>m. re_search s \<noteq> Some m" unfolding re_search_Some by blast
  then show "re_search s = None" by (cases "re_search s") auto
qed

lemma re_search_idem:
  assumes "re_search s = Some m"
  shows "re_search m = Some m"
proof -
  from assms obtain pre mid post where m: "m = CHR ''{'' # mid @ [CHR ''}'']"
    unfolding re_search_Some by blast
  have "m = [] @ CHR ''{'' # mid @ CHR ''}'' # [] \<and> CHR ''{'' \<notin> set []
        \<and> CHR ''}'' \<notin> set [] \<and> m = CHR ''{'' # mid @ [CHR ''}'']"
    using m by simp
  then show ?thesis unfolding re_search_Some [of m m] by blast
qed

subsection \<open>Handlers, the loop and part 2 of the parser\<close>

lemma try_except_Inr: "\<exists>r. try_except body h = Inr r"
  by (cases body) (simp_all add: try_except_def)

lemma try_except_Inl: "body = Inl e \<Longrightarrow> try_except body h = Inr h"
  by (simp add: try_except_def)

lemma try_except_ok: "body = Inr v \<Longrightarrow> try_except body h = Inr v"
  by (simp add: try_except_def)

lemma accepted_parse_result:
  assumes "accepted_parse rt self content data result"
  shows "parse_llm_analysis rt self (PStr content) = Inr result"
proof -
  from assms obtain json_str where js: "re_search content = Some json_str"
    and ld: "json_loads rt json_str = Some (PDict data)"
    by (auto simp: accepted_parse_def split: option.splits)
  from assms have g: "rejection_gate data = Inr False" and p: "process_agricultural rt self data = Inr result"
    by (simp_all add: accepted_parse_def)
  have "parse_body rt self (PStr content) = Inr result" using js ld g p by simp
  then show ?thesis by (simp add: parse_llm_analysis_def try_except_def)
qed

lemma match_loop_find:
  "match_loop rt cu tbl (recs, found, ns) = Inr (recs', found', ns') \<Longrightarrow>
     (case find (record_matches rt cu) tbl of
        None \<Rightarrow> recs' = recs \<and> found' = found \<and> ns' = ns
      | Some (key, info) \<Rightarrow>
          recs' = PList (map PStr (control_methods info)) \<and> found' = record_dict info
          \<and> append_resembles ns info = Inr ns')"
proof (induction tbl)
  case Nil
  then show ?case by simp
next
  case (Cons entry rest)
  obtain key info where e: "entry = (key, info)" by (cases entry)
  show ?case
  proof (cases "record_matches rt cu (key, info)")
    case True
    with Cons.prems e show ?thesis by (auto split: sum.splits)
  next
    case False
    with Cons e show ?thesis by simp
  qed
qed

lemma process_agricultural_Inr:
  assumes "process_agricultural rt self data = Inr r"
  obtains cond recs1 pinfo ns1 recs2 dinfo ns2 recs3 ns3 where
    "dict_get data ''condition'' (PStr ''Unknown'') = PStr cond"
    "(if contains ''PEST'' (str_upper rt cond)
      then match_loop rt (str_upper rt (py_str rt (dict_get data ''detected_issue'' (PStr '''')))) (pest_database self)
             (PList [PStr ''Monitor the crop closely.'', PStr ''Consult your local technician.''], PNone,
              dict_get data ''natural_response'' (PStr ''''))
      else Inr (PList [PStr ''Monitor the crop closely.'', PStr ''Consult your local technician.''], PNone,
              dict_get data ''natural_response'' (PStr ''''))) = Inr (recs1, pinfo, ns1)"
    "(if contains ''DISEASE'' (str_upper rt cond)
      then match_loop rt (str_upper rt (py_str rt (dict_get data ''detected_issue'' (PStr '''')))) (disease_database self)
             (recs1, PNone, ns1)
      else Inr (recs1, PNone, ns1)) = Inr (recs2, dinfo, ns2)"
    "(if \<not> contains ''PEST'' (str_upper rt cond) \<and> \<not> contains ''DISEASE'' (str_upper rt cond)
      then healthy_branch rt (dict_get data ''plant_name'' (PStr ''Unknown Crop'')) cond ns2
      else Inr (recs2, ns2)) = Inr (recs3, ns3)"
    "r = [(''plant_type'', dict_get data ''plant_name'' (PStr ''Unknown Crop'')),
          (''pest_detected'', PBool (contains ''PEST'' (str_upper rt cond))),
          (''disease_detected'', PBool (contains ''DISEASE'' (str_upper rt cond))),
          (''health_status'', PStr cond),
          (''severity'',
             PStr (if contains ''PEST'' (str_upper rt cond) \<or> contains ''DISEASE'' (str_upper rt cond)
                   then ''Moderate'' else ''None'')),
          (''pest_info'', pinfo),
          (''disease_info'', dinfo),
          (''recommendations'', recs3),
          (''sources'', PList []),
          (''natural_summary'', ns3)]"
proof -
  from assms obtain cond where c: "dict_get data ''condition'' (PStr ''Unknown'') = PStr cond"
    by (cases "dict_get data ''condition'' (PStr ''Unknown'')")
       (simp_all add: process_agricultural_def Let_def)
  show ?thesis
    using assms c that[OF c]
    unfolding process_agricultural_def Let_def
    by (simp split: sum.splits prod.splits)
qed

section \<open>The rejection gate\<close>

text \<open>
  Claim C1. Let a JSON text be found in the content and decode to a dictionary. If
  \<^verbatim>\<open>is_agricultural\<close> is missing or false, or if \<^verbatim>\<open>confidence_score\<close> (100 when
  missing) is a number below 40, the parser returns the non-agricultural result: the
  fixed plant type, both flags false, the fixed health status and severity, the one
  recommendation asking for a clear photo, no sources, and as summary the
  \<^verbatim>\<open>natural_response\<close> of the dictionary when it has one, the fixed apology otherwise.
  No other field of the dictionary matters.
\<close>

theorem strict_rejection_gate:
  assumes "re_search content = Some json_str"
    and "json_loads rt json_str = Some (PDict data)"
    and "map_of data ''is_agricultural'' = None
         \<or> map_of data ''is_agricultural'' = Some (PBool False)
         \<or> (\<exists>n. dict_get data ''confidence_score'' (PInt 100) = PInt n \<and> n < 40)
         \<or> (\<exists>x. dict_get data ''confidence_score'' (PInt 100) = PFloat (Finite x) \<and> x < 40)
         \<or> dict_get data ''confidence_score'' (PInt 100) = PFloat NegInf"
  shows "parse_llm_analysis rt self (PStr content) =
           Inr [(''plant_type'', PStr ''Non-Agricultural Object''),
                (''pest_detected'', PBool False),
                (''disease_detected'', PBool False),
                (''health_status'', PStr ''Not Agricultural''),
                (''severity'', PStr ''None''),
                (''recommendations'',
                   PList [PStr ''Please upload a clear photo of a crop, plant, or pest.'']),
                (''sources'', PList []),
                (''natural_summary'',
                   (case map_of data ''natural_response'' of
                      Some v \<Rightarrow> v
                    | None \<Rightarrow> PStr ''I'm sorry, I couldn't recognize a plant or crop in this image.''))]"
proof -
  have gate: "rejection_gate data = Inr True"
  proof (cases "truthy (dict_get data ''is_agricultural'' (PBool False))")
    case False
    then show ?thesis by (simp add: rejection_gate_def)
  next
    case True
    then have "map_of data ''is_agricultural'' \<noteq> None"
      and "map_of data ''is_agricultural'' \<noteq> Some (PBool False)"
      by (auto simp: dict_get_def split: option.splits)
    with assms(3) have "py_lt_int (dict_get data ''confidence_score'' (PInt 100)) 40 = Inr True"
      by auto
    with True show ?thesis by (simp add: rejection_gate_def)
  qed
  have "parse_body rt self (PStr content) = Inr (non_agricultural_result data)"
    using assms(1,2) gate by simp
  then show ?thesis
    by (simp add: parse_llm_analysis_def try_except_def non_agricultural_result_def dict_get_def
        split: option.splits)
qed

theorem strict_rejection_gate_witness:
  "parse_llm_analysis scenario_runtime default_service (PStr low_confidence_json) =
     Inr [(''plant_type'', PStr ''Non-Agricultural Object''),
          (''pest_detected'', PBool False),
          (''disease_detected'', PBool False),
          (''health_status'', PStr ''Not Agricultural''),
          (''severity'', PStr ''None''),
          (''recommendations'',
             PList [PStr ''Please upload a clear photo of a crop, plant, or pest.'']),
          (''sources'', PList []),
          (''natural_summary'',
             PStr ''I'm sorry, I couldn't recognize a plant or crop in this image.'')]
   \<and> parse_llm_analysis scenario_runtime default_service (PStr car_json) =
     Inr [(''plant_type'', PStr ''Non-Agricultural Object''),
          (''pest_detected'', PBool False),
          (''disease_detected'', PBool False),
          (''health_status'', PStr ''Not Agricultural''),
          (''severity'', PStr ''None''),
          (''recommendations'',
             PList [PStr ''Please upload a clear photo of a crop, plant, or pest.'']),
          (''sources'', PList []),
          (''natural_summary'',
             PStr ''I cannot analyze this. It looks like a car, not a crop.'')]"
proof -
  have s1: "re_search low_confidence_json = Some low_confidence_json"
    by code_simp
  have l1: "json_loads scenario_runtime low_confidence_json = Some (PDict low_confidence_data)"
    by code_simp
  have c1: "dict_get low_confidence_data ''confidence_score'' (PInt 100) = PInt 20"
    by code_simp
  have g1: "map_of low_confidence_data ''is_agricultural'' = None
         \<or> map_of low_confidence_data ''is_agricultural'' = Some (PBool False)
         \<or> (\<exists>n. dict_get low_confidence_data ''confidence_score'' (PInt 100) = PInt n \<and> n < 40)
         \<or> (\<exists>x. dict_get low_confidence_data ''confidence_score'' (PInt 100) = PFloat (Finite x) \<and> x < 40)
         \<or> dict_get low_confidence_data ''confidence_score'' (PInt 100) = PFloat NegInf"
    using c1 by simp
  have n1: "map_of low_confidence_data ''natural_response'' = None"
    by code_simp
  have s2: "re_search car_json = Some car_json"
    by code_simp
  have l2: "json_loads scenario_runtime car_json = Some (PDict car_data)"
    by code_simp
  have a2: "map_of car_data ''is_agricultural'' = Some (PBool False)"
    by code_simp
  have n2: "map_of car_data ''natural_response'' =
              Some (PStr ''I cannot analyze this. It looks like a car, not a crop.'')"
    by code_simp
  have g2: "map_of car_data ''is_agricultural'' = None
         \<or> map_of car_data ''is_agricultural'' = Some (PBool False)
         \<or> (\<exists>n. dict_get car_data ''confidence_score'' (PInt 100) = PInt n \<and> n < 40)
         \<or> (\<exists>x. dict_get car_data ''confidence_score'' (PInt 100) = PFloat (Finite x) \<and> x < 40)
         \<or> dict_get car_data ''confidence_score'' (PInt 100) = PFloat NegInf"
    using a2 by simp
  from strict_rejection_gate [OF s1 l1 g1, of default_service]
       strict_rejection_gate [OF s2 l2 g2, of default_service] n1 n2
  show ?thesis by simp
qed

section \<open>The entry point never raises\<close>

text \<open>
  Claim C2. Whatever the image, the file name, the context and the behaviour of the model
  call, \<open>analyze_image\<close> returns a result and raises nothing. When the model call raises,
  when the response has no \<^verbatim>\<open>message\<close> or the message no \<^verbatim>\<open>content\<close>, and when
  anything raises inside the parser (no JSON text, a text that does not decode, any other
  exception), the result is the fixed fallback dictionary: plant type
  \<^verbatim>\<open>Analysis Failed\<close>, both flags false, health status \<^verbatim>\<open>System Error\<close>, the fixed
  apology, no recommendations and no sources. When nothing raises, the result is the one
  the parser returns.
\<close>

theorem analyze_image_total:
  "(\<exists>result. analyze_image rt ollama_chat self image_data filename context = Inr result)
   \<and> (\<forall>e. ollama_chat (ollama_vision_model self) (build_prompt context) image_data = Inl e \<longrightarrow>
         analyze_image rt ollama_chat self image_data filename context = Inr get_fallback_analysis)
   \<and> (\<forall>response e.
         ollama_chat (ollama_vision_model self) (build_prompt context) image_data = Inr response
         \<and> getitem response ''message'' = Inl e \<longrightarrow>
         analyze_image rt ollama_chat self image_data filename context = Inr get_fallback_analysis)
   \<and> (\<forall>response message e.
         ollama_chat (ollama_vision_model self) (build_prompt context) image_data = Inr response
         \<and> getitem response ''message'' = Inr message \<and> getitem message ''content'' = Inl e \<longrightarrow>
         analyze_image rt ollama_chat self image_data filename context = Inr get_fallback_analysis)
   \<and> (\<forall>response message content e.
         ollama_chat (ollama_vision_model self) (build_prompt context) image_data = Inr response
         \<and> getitem response ''message'' = Inr message \<and> getitem message ''content'' = Inr content
         \<and> parse_body rt self content = Inl e \<longrightarrow>
         analyze_image rt ollama_chat self image_data filename context = Inr get_fallback_analysis)
   \<and> (\<forall>content. \<exists>result. parse_llm_analysis rt self content = Inr result)
   \<and> (\<forall>content e. parse_body rt self content = Inl e \<longrightarrow>
         parse_llm_analysis rt self content = Inr get_fallback_analysis)
   \<and> get_fallback_analysis =
       [(''plant_type'', PStr ''Analysis Failed''),
        (''pest_detected'', PBool False),
        (''disease_detected'', PBool False),
        (''health_status'', PStr ''System Error''),
        (''natural_summary'',
           PStr ''I'm sorry, I couldn't analyze that image clearly. Please try again with a better photo.''),
        (''recommendations'', PList []),
        (''sources'', PList [])]
   \<and> (\<forall>response message content result.
         ollama_chat (ollama_vision_model self) (build_prompt context) image_data = Inr response
         \<and> getitem response ''message'' = Inr message \<and> getitem message ''content'' = Inr content
         \<and> parse_body rt self content = Inr result \<longrightarrow>
         analyze_image rt ollama_chat self image_data filename context = Inr result)"
proof -
  have total: "\<exists>result. analyze_image rt ollama_chat self image_data filename context = Inr result"
    unfolding analyze_image_def by (rule try_except_Inr)
  have transport: "analyze_image rt ollama_chat self image_data filename context = Inr get_fallback_analysis"
    if "ollama_chat (ollama_vision_model self) (build_prompt context) image_data = Inl e" for e
    using that by (simp add: analyze_image_def analyze_image_body_def try_except_def)
  have no_message: "analyze_image rt ollama_chat self image_data filename context = Inr get_fallback_analysis"
    if "ollama_chat (ollama_vision_model self) (build_prompt context) image_data = Inr response"
      and "getitem response ''message'' = Inl e" for response e
    using that by (simp add: analyze_image_def analyze_image_body_def try_except_def)
  have no_content: "analyze_image rt ollama_chat self image_data filename context = Inr get_fallback_analysis"
    if "ollama_chat (ollama_vision_model self) (build_prompt context) image_data = Inr response"
      and "getitem response ''message'' = Inr message" and "getitem message ''content'' = Inl e"
    for response message e
    using that by (simp add: analyze_image_def analyze_image_body_def try_except_def)
  have parser: "parse_llm_analysis rt self content = Inr get_fallback_analysis"
    if "parse_body rt self content = Inl e" for content e
    using that by (simp add: parse_llm_analysis_def try_except_def)
  have parse_failure: "analyze_image rt ollama_chat self image_data filename context = Inr get_fallback_analysis"
    if "ollama_chat (ollama_vision_model self) (build_prompt context) image_data = Inr response"
      and "getitem response ''message'' = Inr message" and "getitem message ''content'' = Inr content"
      and "parse_body rt self content = Inl e"
    for response message content e
    using that parser [OF that(4)]
    by (simp add: analyze_image_def analyze_image_body_def try_except_def)
  have parser_total: "\<exists>result. parse_llm_analysis rt self content = Inr result" for content
    unfolding parse_llm_analysis_def by (rule try_except_Inr)
  have success: "analyze_image rt ollama_chat self image_data filename context = Inr result"
    if "ollama_chat (ollama_vision_model self) (build_prompt context) image_data = Inr response"
      and "getitem response ''message'' = Inr message" and "getitem message ''content'' = Inr content"
      and "parse_body rt self content = Inr result"
    for response message content result
    using that
    by (simp add: analyze_image_def analyze_image_body_def parse_llm_analysis_def try_except_def)
  show ?thesis
    using total transport no_message no_content parse_failure parser_total parser success
    by (simp add: get_fallback_analysis_def)
qed

theorem analyze_image_total_witness:
  "analyze_image scenario_runtime (\<lambda>model prompt image. Inl (OtherException ''connection refused''))
     default_service [0x89, 0x50, 0x4E, 0x47] ''leaf.png'' '''' = Inr get_fallback_analysis
   \<and> analyze_image scenario_runtime (\<lambda>model prompt image. Inr (PDict [(''done'', PBool True)]))
     default_service [0x89, 0x50, 0x4E, 0x47] ''leaf.png'' '''' = Inr get_fallback_analysis
   \<and> analyze_image scenario_runtime
       (\<lambda>model prompt image. Inr (PDict [(''message'', PDict [(''role'', PStr ''assistant'')])]))
     default_service [0x89, 0x50, 0x4E, 0x47] ''leaf.png'' '''' = Inr get_fallback_analysis
   \<and> analyze_image scenario_runtime
       (\<lambda>model prompt image. Inr (PDict [(''message'', PDict [(''content'', PNone)])]))
     default_service [0x89, 0x50, 0x4E, 0x47] ''leaf.png'' '''' = Inr get_fallback_analysis
   \<and> parse_llm_analysis scenario_runtime default_service (PStr ''I think {this is a leaf'')
       = Inr get_fallback_analysis
   \<and> analyze_image scenario_runtime
       (\<lambda>model prompt image. Inr (PDict [(''message'', PDict [(''content'', PStr car_json)])]))
     default_service [0x89, 0x50, 0x4E, 0x47] ''leaf.png'' '''' = Inr (non_agricultural_result car_data)"
proof -
  let ?car = "\<lambda>(model :: string) (prompt :: string) (image :: bytes).
                 (Inr (PDict [(''message'', PDict [(''content'', PStr car_json)])]) :: error + pyval)"
  let ?img = "[0x89, 0x50, 0x4E, 0x47] :: bytes"
  let ?down = "\<lambda>(model :: string) (prompt :: string) (image :: bytes).
                 (Inl (OtherException ''connection refused'') :: error + pyval)"
  let ?bare = "\<lambda>(model :: string) (prompt :: string) (image :: bytes).
                 (Inr (PDict [(''done'', PBool True)]) :: error + pyval)"
  let ?silent = "\<lambda>(model :: string) (prompt :: string) (image :: bytes).
                 (Inr (PDict [(''message'', PDict [(''role'', PStr ''assistant'')])]) :: error + pyval)"
  let ?null = "\<lambda>(model :: string) (prompt :: string) (image :: bytes).
                 (Inr (PDict [(''message'', PDict [(''content'', PNone)])]) :: error + pyval)"
  have down: "analyze_image scenario_runtime ?down default_service ?img ''leaf.png'' ''''
                = Inr get_fallback_analysis"
    using analyze_image_total [of scenario_runtime ?down default_service ?img "''leaf.png''" "''''",
        THEN conjunct2, THEN conjunct1]
    by simp
  have bare: "analyze_image scenario_runtime ?bare default_service ?img ''leaf.png'' ''''
                = Inr get_fallback_analysis"
    using analyze_image_total [of scenario_runtime ?bare default_service ?img "''leaf.png''" "''''",
        THEN conjunct2, THEN conjunct2, THEN conjunct1]
    by simp
  have silent: "analyze_image scenario_runtime ?silent default_service ?img ''leaf.png'' ''''
                = Inr get_fallback_analysis"
    using analyze_image_total [of scenario_runtime ?silent default_service ?img "''leaf.png''" "''''",
        THEN conjunct2, THEN conjunct2, THEN conjunct2, THEN conjunct1]
    by simp
  have null: "analyze_image scenario_runtime ?null default_service ?img ''leaf.png'' ''''
                = Inr get_fallback_analysis"
    using analyze_image_total [of scenario_runtime ?null default_service ?img "''leaf.png''" "''''",
        THEN conjunct2, THEN conjunct2, THEN conjunct2, THEN conjunct2, THEN conjunct1]
    by simp
  have q: "parse_body scenario_runtime default_service (PStr ''I think {this is a leaf'') = Inl ValueError"
    by code_simp
  have leaf: "parse_llm_analysis scenario_runtime default_service (PStr ''I think {this is a leaf'')
                = Inr get_fallback_analysis"
    using q analyze_image_total [of scenario_runtime ?down default_service ?img "''leaf.png''" "''''",
        THEN conjunct2, THEN conjunct2, THEN conjunct2, THEN conjunct2, THEN conjunct2,
        THEN conjunct2, THEN conjunct1]
    by blast
  have r: "parse_body scenario_runtime default_service (PStr car_json)
             = Inr (non_agricultural_result car_data)"
    by code_simp
  have car: "analyze_image scenario_runtime ?car default_service ?img ''leaf.png'' ''''
               = Inr (non_agricultural_result car_data)"
    using r analyze_image_total [of scenario_runtime ?car default_service ?img "''leaf.png''" "''''",
        THEN conjunct2, THEN conjunct2, THEN conjunct2, THEN conjunct2, THEN conjunct2,
        THEN conjunct2, THEN conjunct2, THEN conjunct2]
    by simp
  from down bare silent null leaf car show ?thesis
    by (intro conjI)
qed

section \<open>Extraction of the JSON text\<close>

text \<open>
  Claim C3. The candidate the parser hands to \<^verbatim>\<open>json.loads\<close> is the text from the
  first opening brace to the last closing brace: the search finds \<open>m\<close> exactly when the
  content splits into a prefix without an opening brace, \<open>m\<close> from brace to brace, and a
  rest without a closing brace, and the parser then treats the content as it treats \<open>m\<close>
  alone: its result is what the rest of the parser makes of the value decoded from \<open>m\<close>.
  The search finds nothing exactly when no opening brace is followed by a closing one, and
  then the parser returns the fallback result; so it does when \<open>m\<close> does not decode.
\<close>

theorem json_extraction:
  "(re_search content = Some m \<longleftrightarrow>
      (\<exists>pre mid post. content = pre @ CHR ''{'' # mid @ CHR ''}'' # post
         \<and> CHR ''{'' \<notin> set pre \<and> CHR ''}'' \<notin> set post \<and> m = CHR ''{'' # mid @ [CHR ''}'']))
   \<and> (re_search content = None \<longleftrightarrow>
        \<not> (\<exists>pre mid post. content = pre @ CHR ''{'' # mid @ CHR ''}'' # post))
   \<and> (re_search content = None \<longrightarrow>
        parse_llm_analysis rt self (PStr content) = Inr get_fallback_analysis)
   \<and> (re_search content = Some m \<and> json_loads rt m = None \<longrightarrow>
        parse_llm_analysis rt self (PStr content) = Inr get_fallback_analysis)
   \<and> (re_search content = Some m \<longrightarrow>
        parse_llm_analysis rt self (PStr content) = parse_llm_analysis rt self (PStr m))
   \<and> (\<forall>data. re_search content = Some m \<and> json_loads rt m = Some data \<longrightarrow>
        parse_llm_analysis rt self (PStr content)
          = try_except (process_data rt self data) get_fallback_analysis)"
proof -
  have none: "parse_llm_analysis rt self (PStr content) = Inr get_fallback_analysis"
    if "re_search content = None"
    using that by (simp add: parse_llm_analysis_def try_except_def)
  have undecoded: "parse_llm_analysis rt self (PStr content) = Inr get_fallback_analysis"
    if "re_search content = Some m" "json_loads rt m = None"
    using that by (simp add: parse_llm_analysis_def try_except_def)
  have same: "parse_llm_analysis rt self (PStr content) = parse_llm_analysis rt self (PStr m)"
    if "re_search content = Some m"
    using that re_search_idem [OF that] by (simp add: parse_llm_analysis_def)
  have decoded: "parse_llm_analysis rt self (PStr content)
                   = try_except (process_data rt self data) get_fallback_analysis"
    if "re_search content = Some m" "json_loads rt m = Some data" for data
    using that by (simp add: parse_llm_analysis_def)
  show ?thesis
    using re_search_Some [of content m] re_search_None [of content] none undecoded same decoded
    by blast
qed

theorem json_extraction_witness:
  \<open>re_search ''Not sure what I'm looking at.'' = None
   \<and> parse_llm_analysis scenario_runtime default_service (PStr ''Not sure what I'm looking at.'')
       = Inr get_fallback_analysis
   \<and> re_search ''Sure {oops} and {more} text'' = Some ''{oops} and {more}''
   \<and> json_loads scenario_runtime ''{oops} and {more}'' = None
   \<and> parse_llm_analysis scenario_runtime default_service (PStr ''Sure {oops} and {more} text'')
       = Inr get_fallback_analysis
   \<and> re_search (''Sure! '' @ car_json @ '' bye'') = Some car_json
   \<and> parse_llm_analysis scenario_runtime default_service (PStr (''Sure! '' @ car_json @ '' bye''))
       = parse_llm_analysis scenario_runtime default_service (PStr car_json)
   \<and> parse_llm_analysis scenario_runtime default_service (PStr (''Sure! '' @ car_json @ '' bye''))
       = try_except (process_data scenario_runtime default_service (PDict car_data))
           get_fallback_analysis\<close>
proof -
  have a: "re_search ''Not sure what I'm looking at.'' = None"
    by code_simp
  have b: "re_search ''Sure {oops} and {more} text'' = Some ''{oops} and {more}''"
    by code_simp
  have c: "json_loads scenario_runtime ''{oops} and {more}'' = None"
    by code_simp
  have d: "re_search (''Sure! '' @ car_json @ '' bye'') = Some car_json"
    by code_simp
  have e: "json_loads scenario_runtime car_json = Some (PDict car_data)"
    by code_simp
  have a': "parse_llm_analysis scenario_runtime default_service (PStr ''Not sure what I'm looking at.'')
              = Inr get_fallback_analysis"
    using a json_extraction [of "''Not sure what I'm looking at.''" "[]" scenario_runtime default_service,
        THEN conjunct2, THEN conjunct2, THEN conjunct1]
    by (rule rev_mp)
  have b': "parse_llm_analysis scenario_runtime default_service (PStr ''Sure {oops} and {more} text'')
              = Inr get_fallback_analysis"
    using conjI [OF b c] json_extraction [of "''Sure {oops} and {more} text''" "''{oops} and {more}''"
        scenario_runtime default_service,
        THEN conjunct2, THEN conjunct2, THEN conjunct2, THEN conjunct1]
    by (rule rev_mp)
  have d': "parse_llm_analysis scenario_runtime default_service (PStr (''Sure! '' @ car_json @ '' bye''))
              = parse_llm_analysis scenario_runtime default_service (PStr car_json)"
    using d json_extraction [of "''Sure! '' @ car_json @ '' bye''" car_json
        scenario_runtime default_service,
        THEN conjunct2, THEN conjunct2, THEN conjunct2, THEN conjunct2, THEN conjunct1]
    by (rule rev_mp)
  have e': "parse_llm_analysis scenario_runtime default_service (PStr (''Sure! '' @ car_json @ '' bye''))
              = try_except (process_data scenario_runtime default_service (PDict car_data))
                  get_fallback_analysis"
    using conjI [OF d e] json_extraction [of "''Sure! '' @ car_json @ '' bye''" car_json
        scenario_runtime default_service,
        THEN conjunct2, THEN conjunct2, THEN conjunct2, THEN conjunct2, THEN conjunct2, THEN spec]
    by (rule rev_mp)
  from a a' b c b' d d' e' show ?thesis
    by (intro conjI)
qed

section \<open>Matching against the knowledge base\<close>

text \<open>
  Claim C4 says that when a flag is true and no record of its table matches, the
  recommendations stay at the generic default. The two loops assign one variable in
  turn, so this holds of the loop and not of the result: for the reply with detected
  issue \<^verbatim>\<open>Armyworm\<close> and condition \<^verbatim>\<open>Pest and Disease Detected\<close> the disease flag
  is true, no record of the disease table matches, and the recommendations returned are
  the control methods of the armyworm record, which the pest loop assigned.
\<close>

theorem unmatched_disease_keeps_pest_methods:
  "parse_llm_analysis scenario_runtime default_service (PStr armyworm_json) = Inr armyworm_result
   \<and> accepted_parse scenario_runtime default_service armyworm_json armyworm_data armyworm_result
   \<and> map_of armyworm_result ''disease_detected'' = Some (PBool True)
   \<and> str_upper scenario_runtime
         (py_str scenario_runtime (dict_get armyworm_data ''detected_issue'' (PStr ''''))) = ''ARMYWORM''
   \<and> find (record_matches scenario_runtime ''ARMYWORM'') (disease_database default_service) = None
   \<and> map_of armyworm_result ''disease_info'' = Some PNone
   \<and> map_of armyworm_result ''recommendations''
       = Some (PList [PStr ''Biological control (Trichogramma)'',
                      PStr ''Spray Bacillus thuringiensis (Bt)'',
                      PStr ''Use pheromone traps''])
   \<and> map_of armyworm_result ''recommendations''
       \<noteq> Some (PList [PStr ''Monitor the crop closely.'', PStr ''Consult your local technician.''])"
proof -
  have a: "parse_llm_analysis scenario_runtime default_service (PStr armyworm_json) = Inr armyworm_result"
    by code_simp
  have b: "accepted_parse scenario_runtime default_service armyworm_json armyworm_data armyworm_result"
    by code_simp
  have c: "map_of armyworm_result ''disease_detected'' = Some (PBool True)"
    by code_simp
  have d: "str_upper scenario_runtime
             (py_str scenario_runtime (dict_get armyworm_data ''detected_issue'' (PStr ''''))) = ''ARMYWORM''"
    by code_simp
  have e: "find (record_matches scenario_runtime ''ARMYWORM'') (disease_database default_service) = None"
    by code_simp
  have f: "map_of armyworm_result ''disease_info'' = Some PNone"
    by code_simp
  have g: "map_of armyworm_result ''recommendations''
             = Some (PList [PStr ''Biological control (Trichogramma)'',
                            PStr ''Spray Bacillus thuringiensis (Bt)'',
                            PStr ''Use pheromone traps''])"
    by code_simp
  from g have h: "map_of armyworm_result ''recommendations''
       \<noteq> Some (PList [PStr ''Monitor the crop closely.'', PStr ''Consult your local technician.''])"
    by simp
  from a b c d e f g h show ?thesis
    by (intro conjI)
qed

text \<open>
  Claim C4, as the code has it. A record matches when its identifier with spaces for
  underscores, uppercased, or its local name, uppercased, occurs in the uppercased
  detected issue. A loop runs when its flag is true and takes the first matching record
  in the order of the table, the order in which the table is written. On every accepted
  parse \<^verbatim>\<open>pest_info\<close> is the record the pest loop took and \<^verbatim>\<open>disease_info\<close> the
  record the disease loop took, each \<^verbatim>\<open>None\<close> when the loop did not run or no record
  matched. When a flag is true the recommendations are the control methods of the record
  the disease loop took; when it took none, those of the record the pest loop took; and
  when neither loop took a record, the two generic sentences.
\<close>

theorem knowledge_base_matching:
  assumes "accepted_parse rt self content data result"
    and "content_upper = str_upper rt (py_str rt (dict_get data ''detected_issue'' (PStr '''')))"
  shows "(\<exists>pest disease.
            map_of result ''pest_detected'' = Some (PBool pest)
            \<and> map_of result ''disease_detected'' = Some (PBool disease)
            \<and> map_of result ''pest_info''
                = Some (case (if pest then find (record_matches rt content_upper) (pest_database self)
                              else None) of
                          None \<Rightarrow> PNone
                        | Some (key, info) \<Rightarrow> record_dict info)
            \<and> map_of result ''disease_info''
                = Some (case (if disease then find (record_matches rt content_upper) (disease_database self)
                              else None) of
                          None \<Rightarrow> PNone
                        | Some (key, info) \<Rightarrow> record_dict info)
            \<and> (pest \<or> disease \<longrightarrow>
                 map_of result ''recommendations''
                   = Some (case (if disease
                                 then find (record_matches rt content_upper) (disease_database self)
                                 else None) of
                             Some (key, info) \<Rightarrow> PList (map PStr (control_methods info))
                           | None \<Rightarrow>
                              (case (if pest
                                     then find (record_matches rt content_upper) (pest_database self)
                                     else None) of
                                 Some (key, info) \<Rightarrow> PList (map PStr (control_methods info))
                               | None \<Rightarrow> PList [PStr ''Monitor the crop closely.'',
                                                PStr ''Consult your local technician.'']))))
         \<and> (\<forall>key info.
               record_matches rt content_upper (key, info)
               \<longleftrightarrow> (\<exists>ps ss. content_upper = ps @ str_upper rt (replace_underscores key) @ ss)
                    \<or> (\<exists>ps ss. content_upper = ps @ str_upper rt (local_name info) @ ss))
         \<and> (\<forall>tbl entry.
               find (record_matches rt content_upper) tbl = Some entry
               \<longleftrightarrow> (\<exists>i < length tbl. tbl ! i = entry \<and> record_matches rt content_upper entry
                      \<and> (\<forall>j < i. \<not> record_matches rt content_upper (tbl ! j))))
         \<and> map fst (pest_database (init_service env))
             = [''armyworm'', ''rice_black_bug'', ''brown_planthopper'', ''corn_borer'', ''cocolisap'',
                ''mango_cecid_fly'', ''stem_borer'']
         \<and> map fst (disease_database (init_service env))
             = [''rice_blast'', ''tungro'', ''bacterial_leaf_blight'', ''panama_disease'']
         \<and> parse_llm_analysis rt self (PStr content) = Inr result"
proof -
  let ?cu = "str_upper rt (py_str rt (dict_get data ''detected_issue'' (PStr '''')))"
  let ?ns0 = "dict_get data ''natural_response'' (PStr '''')"
  let ?generic = "PList [PStr ''Monitor the crop closely.'', PStr ''Consult your local technician.'']"
  from assms(1) have "process_agricultural rt self data = Inr result"
    by (simp add: accepted_parse_def)
  then obtain cond recs1 pinfo ns1 recs2 dinfo ns2 recs3 ns3 where
    c: "dict_get data ''condition'' (PStr ''Unknown'') = PStr cond"
    and s1: "(if contains ''PEST'' (str_upper rt cond)
      then match_loop rt ?cu (pest_database self) (?generic, PNone, ?ns0)
      else Inr (?generic, PNone, ?ns0)) = Inr (recs1, pinfo, ns1)"
    and s2: "(if contains ''DISEASE'' (str_upper rt cond)
      then match_loop rt ?cu (disease_database self) (recs1, PNone, ns1)
      else Inr (recs1, PNone, ns1)) = Inr (recs2, dinfo, ns2)"
    and s3: "(if \<not> contains ''PEST'' (str_upper rt cond) \<and> \<not> contains ''DISEASE'' (str_upper rt cond)
      then healthy_branch rt (dict_get data ''plant_name'' (PStr ''Unknown Crop'')) cond ns2
      else Inr (recs2, ns2)) = Inr (recs3, ns3)"
    and r: "result = [(''plant_type'', dict_get data ''plant_name'' (PStr ''Unknown Crop'')),
          (''pest_detected'', PBool (contains ''PEST'' (str_upper rt cond))),
          (''disease_detected'', PBool (contains ''DISEASE'' (str_upper rt cond))),
          (''health_status'', PStr cond),
          (''severity'',
             PStr (if contains ''PEST'' (str_upper rt cond) \<or> contains ''DISEASE'' (str_upper rt cond)
                   then ''Moderate'' else ''None'')),
          (''pest_info'', pinfo),
          (''disease_info'', dinfo),
          (''recommendations'', recs3),
          (''sources'', PList []),
          (''natural_summary'', ns3)]"
    by (rule process_agricultural_Inr)
  let ?pest = "contains ''PEST'' (str_upper rt cond)"
  let ?disease = "contains ''DISEASE'' (str_upper rt cond)"
  let ?fp = "if ?pest then find (record_matches rt ?cu) (pest_database self) else None"
  let ?fd = "if ?disease then find (record_matches rt ?cu) (disease_database self) else None"
  have l1: "pinfo = (case ?fp of None \<Rightarrow> PNone | Some (key, info) \<Rightarrow> record_dict info)
            \<and> recs1 = (case ?fp of None \<Rightarrow> ?generic
                        | Some (key, info) \<Rightarrow> PList (map PStr (control_methods info)))"
  proof (cases ?pest)
    case True
    with s1 have "match_loop rt ?cu (pest_database self) (?generic, PNone, ?ns0) = Inr (recs1, pinfo, ns1)"
      by simp
    from match_loop_find [OF this] True show ?thesis
      by (cases "find (record_matches rt ?cu) (pest_database self)") auto
  next
    case False
    with s1 show ?thesis by simp
  qed
  have l2: "dinfo = (case ?fd of None \<Rightarrow> PNone | Some (key, info) \<Rightarrow> record_dict info)
            \<and> recs2 = (case ?fd of None \<Rightarrow> recs1
                        | Some (key, info) \<Rightarrow> PList (map PStr (control_methods info)))"
  proof (cases ?disease)
    case True
    with s2 have "match_loop rt ?cu (disease_database self) (recs1, PNone, ns1) = Inr (recs2, dinfo, ns2)"
      by simp
    from match_loop_find [OF this] True show ?thesis
      by (cases "find (record_matches rt ?cu) (disease_database self)") auto
  next
    case False
    with s2 show ?thesis by simp
  qed
  have l3: "recs3 = recs2" if "?pest \<or> ?disease"
    using s3 that by auto
  have recs: "recs3 = (case ?fd of
                         Some (key, info) \<Rightarrow> PList (map PStr (control_methods info))
                       | None \<Rightarrow>
                          (case ?fp of
                             Some (key, info) \<Rightarrow> PList (map PStr (control_methods info))
                           | None \<Rightarrow> ?generic))"
    if "?pest \<or> ?disease"
    using l3 [OF that] l1 l2 by (simp split: option.splits prod.splits)
  have fields: "map_of result ''pest_detected'' = Some (PBool ?pest)"
    "map_of result ''disease_detected'' = Some (PBool ?disease)"
    "map_of result ''pest_info'' = Some pinfo"
    "map_of result ''disease_info'' = Some dinfo"
    "map_of result ''recommendations'' = Some recs3"
    using r by simp_all
  have first: "\<exists>pest disease.
            map_of result ''pest_detected'' = Some (PBool pest)
            \<and> map_of result ''disease_detected'' = Some (PBool disease)
            \<and> map_of result ''pest_info''
                = Some (case (if pest then find (record_matches rt ?cu) (pest_database self)
                              else None) of
                          None \<Rightarrow> PNone
                        | Some (key, info) \<Rightarrow> record_dict info)
            \<and> map_of result ''disease_info''
                = Some (case (if disease then find (record_matches rt ?cu) (disease_database self)
                              else None) of
                          None \<Rightarrow> PNone
                        | Some (key, info) \<Rightarrow> record_dict info)
            \<and> (pest \<or> disease \<longrightarrow>
                 map_of result ''recommendations''
                   = Some (case (if disease
                                 then find (record_matches rt ?cu) (disease_database self)
                                 else None) of
                             Some (key, info) \<Rightarrow> PList (map PStr (control_methods info))
                           | None \<Rightarrow>
                              (case (if pest
                                     then find (record_matches rt ?cu) (pest_database self)
                                     else None) of
                                 Some (key, info) \<Rightarrow> PList (map PStr (control_methods info))
                               | None \<Rightarrow> ?generic)))"
    apply (rule exI [of _ ?pest])
    apply (rule exI [of _ ?disease])
    using fields l1 l2 recs
    apply (intro conjI impI)
        apply (simp_all only:)
    done
  have matches: "record_matches rt cu (key, info)
               \<longleftrightarrow> (\<exists>ps ss. cu = ps @ str_upper rt (replace_underscores key) @ ss)
                    \<or> (\<exists>ps ss. cu = ps @ str_upper rt (local_name info) @ ss)" for cu key info
    by (simp add: record_matches_def contains_iff)
  have firstness: "find (record_matches rt cu) tbl = Some entry
               \<longleftrightarrow> (\<exists>i < length tbl. tbl ! i = entry \<and> record_matches rt cu entry
                      \<and> (\<forall>j < i. \<not> record_matches rt cu (tbl ! j)))" for cu tbl entry
    by (auto simp: find_Some_iff)
  have pests: "map fst (pest_database (init_service env))
             = [''armyworm'', ''rice_black_bug'', ''brown_planthopper'', ''corn_borer'', ''cocolisap'',
                ''mango_cecid_fly'', ''stem_borer'']"
    by (simp add: init_service_def build_pest_database_def)
  have diseases: "map fst (disease_database (init_service env))
             = [''rice_blast'', ''tungro'', ''bacterial_leaf_blight'', ''panama_disease'']"
    by (simp add: init_service_def build_disease_database_def)
  from first matches firstness pests diseases accepted_parse_result [OF assms(1)] show ?thesis
    unfolding assms(2) by (intro conjI allI)
qed

theorem knowledge_base_matching_witness:
  "accepted_parse scenario_runtime default_service kurikong_json kurikong_data kurikong_result
   \<and> str_upper scenario_runtime
         (py_str scenario_runtime (dict_get kurikong_data ''detected_issue'' (PStr '''')))
       = ''STEM BORER OR KURIKONG''
   \<and> record_matches scenario_runtime ''STEM BORER OR KURIKONG''
       (''stem_borer'', the (map_of build_pest_database ''stem_borer''))
   \<and> find (record_matches scenario_runtime ''STEM BORER OR KURIKONG'') (pest_database default_service)
       = Some (''mango_cecid_fly'', the (map_of build_pest_database ''mango_cecid_fly''))
   \<and> map_of kurikong_result ''pest_detected'' = Some (PBool True)
   \<and> map_of kurikong_result ''disease_detected'' = Some (PBool False)
   \<and> map_of kurikong_result ''pest_info''
       = Some (record_dict (the (map_of build_pest_database ''mango_cecid_fly'')))
   \<and> map_of kurikong_result ''disease_info'' = Some PNone
   \<and> map_of kurikong_result ''recommendations''
       = Some (PList [PStr ''Pruning overcrowded branches'', PStr ''Bagging fruits early'',
                      PStr ''Proper orchard sanitation''])"
proof -
  let ?fly = "the (map_of build_pest_database ''mango_cecid_fly'')"
  have acc: "accepted_parse scenario_runtime default_service kurikong_json kurikong_data kurikong_result"
    by code_simp
  have cu: "''STEM BORER OR KURIKONG''
              = str_upper scenario_runtime
                  (py_str scenario_runtime (dict_get kurikong_data ''detected_issue'' (PStr '''')))"
    by code_simp
  have sb: "record_matches scenario_runtime ''STEM BORER OR KURIKONG''
              (''stem_borer'', the (map_of build_pest_database ''stem_borer''))"
    by code_simp
  have fp: "find (record_matches scenario_runtime ''STEM BORER OR KURIKONG'') (pest_database default_service)
              = Some (''mango_cecid_fly'', ?fly)"
    by code_simp
  have p: "map_of kurikong_result ''pest_detected'' = Some (PBool True)"
    by code_simp
  have d: "map_of kurikong_result ''disease_detected'' = Some (PBool False)"
    by code_simp
  have m: "control_methods ?fly
             = [''Pruning overcrowded branches'', ''Bagging fruits early'', ''Proper orchard sanitation'']"
    by code_simp
  from knowledge_base_matching [OF acc cu, THEN conjunct1] p d fp m
  have k: "map_of kurikong_result ''pest_info'' = Some (record_dict ?fly)
           \<and> map_of kurikong_result ''disease_info'' = Some PNone
           \<and> map_of kurikong_result ''recommendations''
               = Some (PList [PStr ''Pruning overcrowded branches'', PStr ''Bagging fruits early'',
                              PStr ''Proper orchard sanitation''])"
    by auto
  from acc cu [symmetric] sb fp p d k show ?thesis
    by (intro conjI) simp_all
qed

section \<open>The detection flags\<close>

text \<open>
  Claim C5. On every accepted parse the condition is a string, \<^verbatim>\<open>pest_detected\<close> holds
  exactly when \<^verbatim>\<open>PEST\<close> occurs in the uppercased condition, and
  \<^verbatim>\<open>disease_detected\<close> exactly when \<^verbatim>\<open>DISEASE\<close> occurs in it. The two tests do
  not depend on each other: for the condition \<^verbatim>\<open>Pest and Disease Detected\<close> both flags
  are true.
\<close>

theorem detection_flags:
  assumes "accepted_parse rt self content data result"
  shows "\<exists>cond. dict_get data ''condition'' (PStr ''Unknown'') = PStr cond
           \<and> map_of result ''pest_detected''
               = Some (PBool (\<exists>ps ss. str_upper rt cond = ps @ ''PEST'' @ ss))
           \<and> map_of result ''disease_detected''
               = Some (PBool (\<exists>ps ss. str_upper rt cond = ps @ ''DISEASE'' @ ss))
           \<and> parse_llm_analysis rt self (PStr content) = Inr result"
proof -
  from assms have "process_agricultural rt self data = Inr result"
    by (simp add: accepted_parse_def)
  then obtain cond where c: "dict_get data ''condition'' (PStr ''Unknown'') = PStr cond"
    and p: "map_of result ''pest_detected'' = Some (PBool (contains ''PEST'' (str_upper rt cond)))"
    and d: "map_of result ''disease_detected'' = Some (PBool (contains ''DISEASE'' (str_upper rt cond)))"
    by (rule process_agricultural_Inr) simp
  from c p d accepted_parse_result [OF assms] show ?thesis
    by (simp add: contains_iff)
qed

theorem detection_flags_witness:
  "accepted_parse scenario_runtime default_service both_json both_data both_result
   \<and> dict_get both_data ''condition'' (PStr ''Unknown'') = PStr ''Pest and Disease Detected''
   \<and> map_of both_result ''pest_detected'' = Some (PBool True)
   \<and> map_of both_result ''disease_detected'' = Some (PBool True)
   \<and> (\<exists>ps ss. str_upper scenario_runtime ''Pest and Disease Detected'' = ps @ ''PEST'' @ ss)
   \<and> (\<exists>ps ss. str_upper scenario_runtime ''Pest and Disease Detected'' = ps @ ''DISEASE'' @ ss)"
proof -
  have acc: "accepted_parse scenario_runtime default_service both_json both_data both_result"
    by code_simp
  have c: "dict_get both_data ''condition'' (PStr ''Unknown'') = PStr ''Pest and Disease Detected''"
    by code_simp
  have p: "map_of both_result ''pest_detected'' = Some (PBool True)"
    by code_simp
  have d: "map_of both_result ''disease_detected'' = Some (PBool True)"
    by code_simp
  from detection_flags [OF acc] c p d
  have "(\<exists>ps ss. str_upper scenario_runtime ''Pest and Disease Detected'' = ps @ ''PEST'' @ ss)
        \<and> (\<exists>ps ss. str_upper scenario_runtime ''Pest and Disease Detected'' = ps @ ''DISEASE'' @ ss)"
    by simp
  with acc c p d show ?thesis
    by simp
qed

section \<open>The parser is a function of the text and the tables\<close>



section \<open>Severity\<close>

text \<open>
  Claim C7. On every accepted parse both flags are truth values, and the severity is
  \<^verbatim>\<open>Moderate\<close> when one of them is true and \<^verbatim>\<open>None\<close> otherwise; this branch
  produces no other severity.
\<close>

theorem severity_values:
  assumes "accepted_parse rt self content data result"
  shows "\<exists>pest disease.
           map_of result ''pest_detected'' = Some (PBool pest)
           \<and> map_of result ''disease_detected'' = Some (PBool disease)
           \<and> map_of result ''severity''
               = Some (PStr (if pest \<or> disease then ''Moderate'' else ''None''))
           \<and> parse_llm_analysis rt self (PStr content) = Inr result"
proof -
  from assms have "process_agricultural rt self data = Inr result"
    by (simp add: accepted_parse_def)
  then obtain pest disease where
    "map_of result ''pest_detected'' = Some (PBool pest)"
    "map_of result ''disease_detected'' = Some (PBool disease)"
    "map_of result ''severity'' = Some (PStr (if pest \<or> disease then ''Moderate'' else ''None''))"
    by (rule process_agricultural_Inr) simp
  with accepted_parse_result [OF assms] show ?thesis
    by blast
qed

theorem severity_values_witness:
  "accepted_parse scenario_runtime default_service (''Sure! '' @ stem_borer_json)
     stem_borer_data stem_borer_result
   \<and> map_of stem_borer_result ''pest_detected'' = Some (PBool True)
   \<and> map_of stem_borer_result ''disease_detected'' = Some (PBool False)
   \<and> map_of stem_borer_result ''severity'' = Some (PStr ''Moderate'')
   \<and> accepted_parse scenario_runtime default_service bare_json bare_data bare_result
   \<and> map_of bare_result ''pest_detected'' = Some (PBool False)
   \<and> map_of bare_result ''disease_detected'' = Some (PBool False)
   \<and> map_of bare_result ''severity'' = Some (PStr ''None'')"
proof -
  have acc: "accepted_parse scenario_runtime default_service (''Sure! '' @ stem_borer_json)
               stem_borer_data stem_borer_result"
    by code_simp
  have p: "map_of stem_borer_result ''pest_detected'' = Some (PBool True)"
    by code_simp
  have d: "map_of stem_borer_result ''disease_detected'' = Some (PBool False)"
    by code_simp
  from severity_values [OF acc] p d
  have s: "map_of stem_borer_result ''severity'' = Some (PStr ''Moderate'')"
    by auto
  have acc': "accepted_parse scenario_runtime default_service bare_json bare_data bare_result"
    by code_simp
  have p': "map_of bare_result ''pest_detected'' = Some (PBool False)"
    by code_simp
  have d': "map_of bare_result ''disease_detected'' = Some (PBool False)"
    by code_simp
  from severity_values [OF acc'] p' d'
  have s': "map_of bare_result ''severity'' = Some (PStr ''None'')"
    by auto
  from acc p d s acc' p' d' s' show ?thesis
    by (intro conjI)
qed

section \<open>The healthy branch\<close>



section \<open>The health status\<close>

text \<open>
  Claim C9. On every accepted parse the health status is the condition of the decoded
  dictionary as it stands, and \<^verbatim>\<open>Unknown\<close> when the dictionary has no condition;
  nothing maps it to one of the four values the prompt names.
\<close>

theorem health_status_passthrough:
  assumes "accepted_parse rt self content data result"
  shows "map_of result ''health_status'' = Some (dict_get data ''condition'' (PStr ''Unknown''))
         \<and> (map_of data ''condition'' = None \<longrightarrow>
              map_of result ''health_status'' = Some (PStr ''Unknown''))
         \<and> (\<forall>v. map_of data ''condition'' = Some v \<longrightarrow> map_of result ''health_status'' = Some v)
         \<and> parse_llm_analysis rt self (PStr content) = Inr result"
proof -
  from assms have "process_agricultural rt self data = Inr result"
    by (simp add: accepted_parse_def)
  then obtain cond where "dict_get data ''condition'' (PStr ''Unknown'') = PStr cond"
    and "map_of result ''health_status'' = Some (PStr cond)"
    by (rule process_agricultural_Inr) simp
  then have h: "map_of result ''health_status'' = Some (dict_get data ''condition'' (PStr ''Unknown''))"
    by simp
  from h accepted_parse_result [OF assms] show ?thesis
    by (simp add: dict_get_def)
qed

theorem health_status_passthrough_witness:
  "accepted_parse scenario_runtime default_service bare_json bare_data bare_result
   \<and> map_of bare_data ''condition'' = None
   \<and> map_of bare_result ''health_status'' = Some (PStr ''Unknown'')
   \<and> accepted_parse scenario_runtime default_service kurikong_json kurikong_data kurikong_result
   \<and> map_of kurikong_data ''condition'' = Some (PStr ''Pest Detected'')
   \<and> map_of kurikong_result ''health_status'' = Some (PStr ''Pest Detected'')"
proof -
  have acc: "accepted_parse scenario_runtime default_service bare_json bare_data bare_result"
    by code_simp
  have n: "map_of bare_data ''condition'' = None"
    by code_simp
  have h: "map_of bare_result ''health_status'' = Some (PStr ''Unknown'')"
    using n health_status_passthrough [OF acc, THEN conjunct2, THEN conjunct1]
    by (rule rev_mp)
  have acc': "accepted_parse scenario_runtime default_service kurikong_json kurikong_data kurikong_result"
    by code_simp
  have c: "map_of kurikong_data ''condition'' = Some (PStr ''Pest Detected'')"
    by code_simp
  have h': "map_of kurikong_result ''health_status'' = Some (PStr ''Pest Detected'')"
    using c health_status_passthrough [OF acc', THEN conjunct2, THEN conjunct2, THEN conjunct1, THEN spec]
    by (rule rev_mp)
  from acc n h acc' c h' show ?thesis
    by (intro conjI)
qed

section \<open>A disease match after a pest match\<close>



end
